theory Spec2Isabelle
  imports Complex_Main "HOL-Library.Word"
begin

section \<open>JavaScript values and strings\<close>

text \<open>
  A value as \<^verbatim>\<open>axios\<close> hands it over after decoding the response body, and as an
  object literal holds it: \<open>JUndefined\<close> is what reading an absent property gives.
  An object is the list of its own properties, each key once.
\<close>

datatype jsval =
    JUndefined
  | JNull
  | JBool bool
  | JNumber real
  | JString string
  | JArray "jsval list"
  | JObject "(string \<times> jsval) list"

text \<open>Property access \<^verbatim>\<open>obj[key]\<close>, as the schemas read their input.\<close>

fun property :: "jsval \<Rightarrow> string \<Rightarrow> jsval" where
  "property (JObject kvs) k = (case map_of kvs k of None \<Rightarrow> JUndefined | Some x \<Rightarrow> x)"
| "property _ k = JUndefined"

text \<open>
  A string is a list of 8-bit code units, read as the characters U+0000 to U+00FF.
  On that range \<open>toLowerCase\<close> and \<open>trim\<close> are JavaScript's: the lowercase mapping
  moves A-Z and the letters U+00C0 to U+00DE (all but the multiplication sign U+00D7) up
  by 32, and \<open>trim\<close> strips tab, line feed, vertical tab, form feed, carriage return,
  space and the no-break space U+00A0 from both ends. \<open>toUpperCase\<close> is JavaScript's on
  ASCII strings only, where it moves a-z: beyond ASCII JavaScript's result can leave the
  8-bit range (U+00DF, U+00FF, U+00B5). Characters above U+00FF are outside the model.
\<close>

definition isAscii :: "string \<Rightarrow> bool" where
  "isAscii s = (\<forall>c \<in> set s. (of_char c :: nat) < 128)"

definition toLowerChar :: "char \<Rightarrow> char" where
  "toLowerChar c =
     (let n = (of_char c :: nat) in
      if (65 \<le> n \<and> n \<le> 90) \<or> (192 \<le> n \<and> n \<le> 222 \<and> n \<noteq> 215) then char_of (n + 32)
      else c)"

definition toUpperChar :: "char \<Rightarrow> char" where
  "toUpperChar c =
     (let n = (of_char c :: nat) in if 97 \<le> n \<and> n \<le> 122 then char_of (n - 32) else c)"

definition toLowerCase :: "string \<Rightarrow> string" where
  "toLowerCase s = map toLowerChar s"

definition toUpperCase :: "string \<Rightarrow> string" where
  "toUpperCase s = map toUpperChar s"

definition isWhiteSpace :: "char \<Rightarrow> bool" where
  "isWhiteSpace c = (let n = (of_char c :: nat) in (9 \<le> n \<and> n \<le> 13) \<or> n = 32 \<or> n = 160)"

definition trim :: "string \<Rightarrow> string" where
  "trim s = rev (dropWhile isWhiteSpace (rev (dropWhile isWhiteSpace s)))"

section \<open>Thrown values and promises\<close>

text \<open>
  What a \<^verbatim>\<open>throw\<close> carries: a failed request (network failure, timeout, error status)
  or a failed \<^verbatim>\<open>parse\<close>. An \<^verbatim>\<open>async\<close> function is a function into \<open>exn + 'a\<close>:
  \<open>Inl\<close> is the rejected promise, \<open>Inr\<close> the resolved one.
\<close>

datatype exn = AxiosError | ZodError

definition bind_result :: "exn + 'a \<Rightarrow> ('a \<Rightarrow> exn + 'b) \<Rightarrow> exn + 'b" where
  "bind_result r f = (case r of Inl e \<Rightarrow> Inl e | Inr x \<Rightarrow> f x)"

text \<open>
  \<^verbatim>\<open>Promise.all\<close>, and equally \<^verbatim>\<open>Array.prototype.map\<close> with a callback that may
  throw: all results in the order of the inputs, or the failure.
\<close>

fun Promise_all :: "(exn + 'a) list \<Rightarrow> exn + 'a list" where
  "Promise_all [] = Inr []"
| "Promise_all (p # ps) =
     (case p of
        Inl e \<Rightarrow> Inl e
      | Inr x \<Rightarrow> (case Promise_all ps of Inl e \<Rightarrow> Inl e | Inr xs \<Rightarrow> Inr (x # xs)))"

section \<open>Schemas (types/emote.ts)\<close>

text \<open>The combinators of the validation library that the schemas use.\<close>

fun z_string :: "jsval \<Rightarrow> exn + string" where
  "z_string (JString s) = Inr s"
| "z_string _ = Inl ZodError"

fun z_number :: "jsval \<Rightarrow> exn + real" where
  "z_number (JNumber n) = Inr n"
| "z_number _ = Inl ZodError"

fun z_boolean :: "jsval \<Rightarrow> exn + bool" where
  "z_boolean (JBool b) = Inr b"
| "z_boolean _ = Inl ZodError"

definition z_array :: "(jsval \<Rightarrow> exn + 'a) \<Rightarrow> jsval \<Rightarrow> exn + 'a list" where
  "z_array p j = (case j of JArray xs \<Rightarrow> Promise_all (map p xs) | _ \<Rightarrow> Inl ZodError)"

definition z_optional :: "(jsval \<Rightarrow> exn + 'a) \<Rightarrow> jsval \<Rightarrow> exn + 'a option" where
  "z_optional p j =
     (case j of JUndefined \<Rightarrow> Inr None | _ \<Rightarrow> bind_result (p j) (\<lambda>x. Inr (Some x)))"

definition z_default :: "(jsval \<Rightarrow> exn + 'a) \<Rightarrow> 'a \<Rightarrow> jsval \<Rightarrow> exn + 'a" where
  "z_default p d j = (case j of JUndefined \<Rightarrow> Inr d | _ \<Rightarrow> p j)"

definition z_object :: "(jsval \<Rightarrow> exn + 'a) \<Rightarrow> jsval \<Rightarrow> exn + 'a" where
  "z_object fields j = (case j of JObject kvs \<Rightarrow> fields j | _ \<Rightarrow> Inl ZodError)"

record Emote =
  id' :: string
  name :: string
  owner :: string
  visibility :: "real option"
  mime :: "string option"
  tags :: "string list"
  animated :: bool

definition EmoteSchema :: "jsval \<Rightarrow> exn + Emote" where
  "EmoteSchema = z_object (\<lambda>j.
     bind_result (z_string (property j ''id'')) (\<lambda>i.
     bind_result (z_string (property j ''name'')) (\<lambda>n.
     bind_result (z_default z_string ''Desconhecido'' (property j ''owner'')) (\<lambda>ow.
     bind_result (z_optional z_number (property j ''visibility'')) (\<lambda>vis.
     bind_result (z_optional z_string (property j ''mime'')) (\<lambda>mi.
     bind_result (z_default (z_array z_string) [] (property j ''tags'')) (\<lambda>ts.
     bind_result (z_default z_boolean False (property j ''animated'')) (\<lambda>an.
       Inr \<lparr>id' = i, name = n, owner = ow, visibility = vis, mime = mi,
            tags = ts, animated = an\<rparr>))))))))"

record SevenTVOwner =
  username :: string

record SevenTVData =
  mime_raw :: "string option"
  animated_raw :: "bool option"

record SevenTVEmote =
  id_raw :: string
  name_raw :: string
  owner_raw :: "SevenTVOwner option"
  visibility_raw :: "real option"
  data_raw :: SevenTVData
  tags_raw :: "string list option"

definition SevenTVOwnerSchema :: "jsval \<Rightarrow> exn + SevenTVOwner" where
  "SevenTVOwnerSchema = z_object (\<lambda>j.
     bind_result (z_string (property j ''username'')) (\<lambda>u. Inr \<lparr>username = u\<rparr>))"

definition SevenTVDataSchema :: "jsval \<Rightarrow> exn + SevenTVData" where
  "SevenTVDataSchema = z_object (\<lambda>j.
     bind_result (z_optional z_string (property j ''mime'')) (\<lambda>mi.
     bind_result (z_optional z_boolean (property j ''animated'')) (\<lambda>an.
       Inr \<lparr>mime_raw = mi, animated_raw = an\<rparr>)))"

definition SevenTVEmoteSchema :: "jsval \<Rightarrow> exn + SevenTVEmote" where
  "SevenTVEmoteSchema = z_object (\<lambda>j.
     bind_result (z_string (property j ''id'')) (\<lambda>i.
     bind_result (z_string (property j ''name'')) (\<lambda>n.
     bind_result (z_optional SevenTVOwnerSchema (property j ''owner'')) (\<lambda>ow.
     bind_result (z_optional z_number (property j ''visibility'')) (\<lambda>vis.
     bind_result (SevenTVDataSchema (property j ''data'')) (\<lambda>d.
     bind_result (z_optional (z_array z_string) (property j ''tags'')) (\<lambda>ts.
       Inr \<lparr>id_raw = i, name_raw = n, owner_raw = ow, visibility_raw = vis,
            data_raw = d, tags_raw = ts\<rparr>)))))))"

record SevenTVEmoteSet =
  emotes :: "SevenTVEmote list"

definition SevenTVEmoteSetSchema :: "jsval \<Rightarrow> exn + SevenTVEmoteSet" where
  "SevenTVEmoteSetSchema = z_object (\<lambda>j.
     bind_result (z_array SevenTVEmoteSchema (property j ''emotes'')) (\<lambda>es.
       Inr \<lparr>emotes = es\<rparr>))"

section \<open>Configuration (config.ts)\<close>

text \<open>
  The \<^verbatim>\<open>config\<close> object, with the values \<^verbatim>\<open>config.ts\<close> computes from the environment
  when the module is loaded. A \<^verbatim>\<open>CACHE_TTL\<close> that does not parse as a number is outside
  the model.
\<close>

record config =
  emoteSetIds :: "string list"
  port :: int
  cacheTTL :: int
  isProduction :: bool
  cdnBaseUrl :: string

section \<open>The emote service (services/emoteService.ts)\<close>

subsection \<open>The two module-level variables\<close>

text \<open>
  Modelled from the spec: the cache library (\<^verbatim>\<open>node-cache\<close>) is a dependency, not
  part of the sources. An entry holds its value and the time \<open>t\<close> in milliseconds
  after which it is stale (\<open>0\<close>: never); \<^verbatim>\<open>set\<close> stamps
  \<open>now + stdTTL * 1000\<close>, or \<open>0\<close> when \<open>stdTTL\<close> is \<open>0\<close> (a time-to-live of zero
  is unlimited in this library); \<^verbatim>\<open>get\<close> treats a stale entry as absent and deletes
  it; \<^verbatim>\<open>flushAll\<close> empties the cache. \<open>now\<close> is the clock, in milliseconds, at the
  moment the service is called.
\<close>

record cache_entry =
  t :: int
  v :: Emote

type_synonym NodeCache = "string \<rightharpoonup> cache_entry"

definition NodeCache_set :: "int \<Rightarrow> int \<Rightarrow> string \<Rightarrow> Emote \<Rightarrow> NodeCache \<Rightarrow> NodeCache" where
  "NodeCache_set stdTTL now key val c =
     c(key \<mapsto> \<lparr>t = (if stdTTL = 0 then 0 else now + stdTTL * 1000), v = val\<rparr>)"

definition expired :: "int \<Rightarrow> cache_entry \<Rightarrow> bool" where
  "expired now e = (t e \<noteq> 0 \<and> t e < now)"

definition NodeCache_get :: "int \<Rightarrow> string \<Rightarrow> NodeCache \<Rightarrow> Emote option \<times> NodeCache" where
  "NodeCache_get now key c =
     (case c key of
        None \<Rightarrow> (None, c)
      | Some e \<Rightarrow> if expired now e then (None, c(key := None)) else (Some (v e), c))"

definition NodeCache_flushAll :: "NodeCache \<Rightarrow> NodeCache" where
  "NodeCache_flushAll c = Map.empty"

text \<open>
  The state of the module: \<open>allEmotes\<close> and \<open>emoteCache\<close>, and a record of every
  access the service makes to them, in order, so that "without reading the cache" and
  "without scanning" are statements about the state.
\<close>

datatype access = CacheGet string | CacheSet string | CacheFlush | Scan

record registry =
  allEmotes :: "Emote list"
  emoteCache :: NodeCache
  accesses :: "access list"

definition initial :: registry where
  "initial = \<lparr>allEmotes = [], emoteCache = Map.empty, accesses = []\<rparr>"

definition emoteCache_set :: "config \<Rightarrow> int \<Rightarrow> string \<Rightarrow> Emote \<Rightarrow> registry \<Rightarrow> registry" where
  "emoteCache_set cfg now key val st =
     st\<lparr>emoteCache := NodeCache_set (cacheTTL cfg) now key val (emoteCache st),
        accesses := accesses st @ [CacheSet key]\<rparr>"

definition emoteCache_get :: "int \<Rightarrow> string \<Rightarrow> registry \<Rightarrow> Emote option \<times> registry" where
  "emoteCache_get now key st =
     (case NodeCache_get now key (emoteCache st) of
        (r, c) \<Rightarrow> (r, st\<lparr>emoteCache := c, accesses := accesses st @ [CacheGet key]\<rparr>))"

definition emoteCache_flushAll :: "registry \<Rightarrow> registry" where
  "emoteCache_flushAll st =
     st\<lparr>emoteCache := NodeCache_flushAll (emoteCache st),
        accesses := accesses st @ [CacheFlush]\<rparr>"

subsection \<open>fetchEmoteSet and mapSevenTVEmote\<close>

text \<open>
  The upstream: what \<^verbatim>\<open>axios.get\<close> does with a URL, either throwing or handing over
  the decoded body. It is fixed for the duration of one call of the service.
\<close>

type_synonym upstream = "string \<Rightarrow> exn + jsval"

definition mapSevenTVEmote :: "SevenTVEmote \<Rightarrow> exn + Emote" where
  "mapSevenTVEmote emote = EmoteSchema (JObject
     [(''id'', JString (id_raw emote)),
      (''name'', JString (name_raw emote)),
      (''owner'', JString
         (case owner_raw emote of
            None \<Rightarrow> ''Desconhecido''
          | Some ow \<Rightarrow> if username ow = [] then ''Desconhecido'' else username ow)),
      (''visibility'',
         (case visibility_raw emote of None \<Rightarrow> JUndefined | Some n \<Rightarrow> JNumber n)),
      (''mime'',
         (case mime_raw (data_raw emote) of None \<Rightarrow> JUndefined | Some m \<Rightarrow> JString m)),
      (''tags'',
         JArray (map JString (case tags_raw emote of None \<Rightarrow> [] | Some ts \<Rightarrow> ts))),
      (''animated'',
         JBool (case animated_raw (data_raw emote) of None \<Rightarrow> False | Some b \<Rightarrow> b))])"

text \<open>The body of the \<^verbatim>\<open>try\<close> block, then the function with its \<^verbatim>\<open>catch\<close>.\<close>

definition fetchEmoteSet_try :: "upstream \<Rightarrow> string \<Rightarrow> exn + Emote list" where
  "fetchEmoteSet_try axios_get emoteSetId =
     (case axios_get (''https://7tv.io/v3/emote-sets/'' @ emoteSetId) of
        Inl e \<Rightarrow> Inl e
      | Inr response_data \<Rightarrow>
          (case SevenTVEmoteSetSchema response_data of
             Inl parse_error \<Rightarrow> Inr []
           | Inr emoteSet \<Rightarrow> Promise_all (map mapSevenTVEmote (emotes emoteSet))))"

definition fetchEmoteSet :: "upstream \<Rightarrow> string \<Rightarrow> exn + Emote list" where
  "fetchEmoteSet axios_get emoteSetId =
     (case fetchEmoteSet_try axios_get emoteSetId of
        Inl error \<Rightarrow> Inr []
      | Inr es \<Rightarrow> Inr es)"

subsection \<open>fetchEmotes, findEmote, refreshEmotes\<close>

definition fetchEmotes :: "config \<Rightarrow> upstream \<Rightarrow> int \<Rightarrow> registry \<Rightarrow> (exn + Emote list) \<times> registry" where
  "fetchEmotes cfg axios_get now st =
     (if length (emoteSetIds cfg) = 0 then (Inr [], st)
      else
        (case Promise_all (map (fetchEmoteSet axios_get) (emoteSetIds cfg)) of
           Inl error \<Rightarrow> (Inl error, st)
         | Inr emoteSets \<Rightarrow>
             (let st1 = st\<lparr>allEmotes := concat emoteSets\<rparr>;
                  st2 = fold (\<lambda>emote. emoteCache_set cfg now (toLowerCase (name emote)) emote)
                          (allEmotes st1) st1
              in (Inr (allEmotes st2), st2))))"

definition findEmote :: "config \<Rightarrow> int \<Rightarrow> string \<Rightarrow> registry \<Rightarrow> Emote option \<times> registry" where
  "findEmote cfg now emoteName st =
     (if emoteName = [] then (None, st)
      else
        (let normalizedName = toLowerCase (trim emoteName) in
         (case emoteCache_get now normalizedName st of
            (Some cachedEmote, st1) \<Rightarrow> (Some cachedEmote, st1)
          | (None, st1) \<Rightarrow>
              (let st2 = st1\<lparr>accesses := accesses st1 @ [Scan]\<rparr> in
               (case find (\<lambda>e. toLowerCase (name e) = normalizedName) (allEmotes st2) of
                  Some emote \<Rightarrow> (Some emote, emoteCache_set cfg now normalizedName emote st2)
                | None \<Rightarrow> (None, st2))))))"

definition refreshEmotes :: "config \<Rightarrow> upstream \<Rightarrow> int \<Rightarrow> registry \<Rightarrow> (exn + Emote list) \<times> registry" where
  "refreshEmotes cfg axios_get now st = fetchEmotes cfg axios_get now (emoteCache_flushAll st)"

text \<open>
  The states the module can be in: it starts with no emotes and an empty cache, and
  changes only through the three operations above, under one configuration (the
  \<^verbatim>\<open>config\<close> object is built once, when the module is loaded).
\<close>

inductive reachable :: "config \<Rightarrow> registry \<Rightarrow> bool" for cfg :: config where
  start: "reachable cfg initial"
| load: "reachable cfg st \<Longrightarrow> reachable cfg (snd (fetchEmotes cfg axios_get now st))"
| refresh: "reachable cfg st \<Longrightarrow> reachable cfg (snd (refreshEmotes cfg axios_get now st))"
| lookup: "reachable cfg st \<Longrightarrow> reachable cfg (snd (findEmote cfg now emoteName st))"

subsection \<open>getEmoteUrl and fetchEmoteImage\<close>

text \<open>An omitted argument is \<open>None\<close>; the parameter's default takes its place.\<close>

definition getEmoteUrl :: "config \<Rightarrow> string \<Rightarrow> string option \<Rightarrow> string option \<Rightarrow> string" where
  "getEmoteUrl cfg emoteId size_arg format_arg =
     (let size = (case size_arg of None \<Rightarrow> ''3x'' | Some s \<Rightarrow> s);
          format = (case format_arg of None \<Rightarrow> ''webp'' | Some f \<Rightarrow> f)
      in cdnBaseUrl cfg @ ''/'' @ emoteId @ ''/'' @ size @ ''.'' @ format)"

text \<open>
  The CDN: what \<^verbatim>\<open>axios.get\<close> with \<^verbatim>\<open>responseType: 'arraybuffer'\<close> does with a
  URL, either throwing or handing over the bytes.
\<close>

type_synonym cdn = "string \<Rightarrow> exn + 8 word list"

record image =
  buffer :: "8 word list"
  contentType :: string

definition fetchEmoteImage ::
  "config \<Rightarrow> cdn \<Rightarrow> string \<Rightarrow> string option \<Rightarrow> string option \<Rightarrow> exn + image" where
  "fetchEmoteImage cfg axios_get emoteId size_arg format_arg =
     (let size = (case size_arg of None \<Rightarrow> ''3x'' | Some s \<Rightarrow> s);
          format = (case format_arg of None \<Rightarrow> ''webp'' | Some f \<Rightarrow> f);
          url = getEmoteUrl cfg emoteId (Some size) (Some format)
      in (case axios_get url of
            Inl error \<Rightarrow> Inl error
          | Inr response_data \<Rightarrow>
              Inr \<lparr>buffer = response_data,
                   contentType =
                     (if format = ''webp'' then ''image/webp''
                      else if format = ''avif'' then ''image/avif''
                      else ''image/gif'')\<rparr>))"

section \<open>Example data\<close>

text \<open>
  A raw record carrying only the required fields, the Emote that comes out of it, a set
  response, an upstream that serves one response per set identifier and fails for
  every other URL, and a CDN that serves the images of a table and fails for every other
  URL.
\<close>

definition raw_record :: "string \<Rightarrow> string \<Rightarrow> jsval" where
  "raw_record i n = JObject [(''id'', JString i), (''name'', JString n), (''data'', JObject [])]"

definition plain_emote :: "string \<Rightarrow> string \<Rightarrow> Emote" where
  "plain_emote i n =
     \<lparr>id' = i, name = n, owner = ''Desconhecido'', visibility = None, mime = None,
      tags = [], animated = False\<rparr>"

definition set_response :: "jsval list \<Rightarrow> jsval" where
  "set_response rs = JObject [(''emotes'', JArray rs)]"

definition serving :: "(string \<times> jsval) list \<Rightarrow> upstream" where
  "serving table url =
     (case map_of (map (\<lambda>(sid, body). (''https://7tv.io/v3/emote-sets/'' @ sid, body)) table) url of
        None \<Rightarrow> Inl AxiosError
      | Some body \<Rightarrow> Inr body)"

definition serving_images :: "(string \<times> 8 word list) list \<Rightarrow> cdn" where
  "serving_images table url = (case map_of table url of None \<Rightarrow> Inl AxiosError | Some bytes \<Rightarrow> Inr bytes)"

definition example_config :: "string list \<Rightarrow> int \<Rightarrow> config" where
  "example_config ids ttl =
     \<lparr>emoteSetIds = ids, port = 3000, cacheTTL = ttl, isProduction = False,
      cdnBaseUrl = ''https://cdn.7tv.app/emote''\<rparr>"

section \<open>Properties of the building blocks\<close>

subsection \<open>Promises and schemas\<close>

lemma Promise_all_Inr_iff: "Promise_all ps = Inr xs \<longleftrightarrow> ps = map Inr xs"
proof (induction ps arbitrary: xs)
  case Nil
  show ?case by auto
next
  case (Cons p ps)
  show ?case
  proof (cases p)
    case (Inl e)
    then show ?thesis by auto
  next
    case (Inr x)
    show ?thesis
    proof (cases "Promise_all ps")
      case (Inl e)
      with Cons[of "tl xs"] Inr show ?thesis by (cases xs) auto
    next
      case r: (Inr ys)
      with Cons[of ys] Inr show ?thesis by auto
    qed
  qed
qed

lemma Promise_all_Inl_mem: "Inl e \<in> set ps \<Longrightarrow> \<exists>e'. Promise_all ps = Inl e'"
  by (induction ps) (auto split: sum.splits)

lemma map_total_Inr:
  assumes "\<And>x. \<exists>y. f x = Inr y"
  shows "\<exists>ys. map f xs = map Inr ys"
proof (induction xs)
  case Nil
  show ?case by simp
next
  case (Cons x xs)
  from assms obtain y where "f x = Inr y" by blast
  moreover from Cons obtain ys where "map f xs = map Inr ys" by blast
  ultimately have "map f (x # xs) = map Inr (y # ys)" by simp
  then show ?case by blast
qed

lemma z_array_strings: "z_array z_string (JArray (map JString ts)) = Inr ts"
  by (simp add: z_array_def comp_def Promise_all_Inr_iff)

text \<open>
  \<open>mapSevenTVEmote\<close> never throws: the object it builds from a validated record always
  passes \<open>EmoteSchema\<close>.
\<close>

lemma mapSevenTVEmote_ok:
  "mapSevenTVEmote emote = Inr
     \<lparr>id' = id_raw emote, name = name_raw emote,
      owner = (case owner_raw emote of None \<Rightarrow> ''Desconhecido''
               | Some ow \<Rightarrow> if username ow = [] then ''Desconhecido'' else username ow),
      visibility = visibility_raw emote,
      mime = mime_raw (data_raw emote),
      tags = (case tags_raw emote of None \<Rightarrow> [] | Some ts \<Rightarrow> ts),
      animated = (case animated_raw (data_raw emote) of None \<Rightarrow> False | Some b \<Rightarrow> b)\<rparr>"
  unfolding mapSevenTVEmote_def EmoteSchema_def z_object_def
  by (simp add: bind_result_def z_default_def z_optional_def z_array_strings
      split: option.split)

lemma SevenTVEmoteSchema_raw_record:
  "SevenTVEmoteSchema (raw_record i n) =
     Inr \<lparr>id_raw = i, name_raw = n, owner_raw = None, visibility_raw = None,
          data_raw = \<lparr>mime_raw = None, animated_raw = None\<rparr>, tags_raw = None\<rparr>"
  by (simp add: SevenTVEmoteSchema_def SevenTVDataSchema_def raw_record_def z_object_def
      bind_result_def z_optional_def)

subsection \<open>fetchEmoteSet\<close>

lemma fetchEmoteSet_total: "\<exists>es. fetchEmoteSet axios_get sid = Inr es"
  by (cases "fetchEmoteSet_try axios_get sid") (simp_all add: fetchEmoteSet_def)

lemma fetchEmoteSet_network_failure:
  "axios_get (''https://7tv.io/v3/emote-sets/'' @ sid) = Inl e \<Longrightarrow>
   fetchEmoteSet axios_get sid = Inr []"
  by (simp add: fetchEmoteSet_def fetchEmoteSet_try_def)

lemma fetchEmoteSet_shape_mismatch:
  "axios_get (''https://7tv.io/v3/emote-sets/'' @ sid) = Inr d \<Longrightarrow>
   SevenTVEmoteSetSchema d = Inl z \<Longrightarrow>
   fetchEmoteSet axios_get sid = Inr []"
  by (simp add: fetchEmoteSet_def fetchEmoteSet_try_def)

lemma fetchEmoteSet_valid:
  "axios_get (''https://7tv.io/v3/emote-sets/'' @ sid) = Inr d \<Longrightarrow>
   SevenTVEmoteSetSchema d = Inr s \<Longrightarrow>
   map mapSevenTVEmote (emotes s) = map Inr es \<Longrightarrow>
   fetchEmoteSet axios_get sid = Inr es"
  by (simp add: fetchEmoteSet_def fetchEmoteSet_try_def Promise_all_Inr_iff[THEN iffD2])

lemma fetchEmoteSets_total: "\<exists>ess. map (fetchEmoteSet axios_get) ids = map Inr ess"
  by (rule map_total_Inr) (rule fetchEmoteSet_total)

subsection \<open>The loop that fills the cache\<close>

lemma fold_set_allEmotes:
  "allEmotes (fold (\<lambda>emote. emoteCache_set cfg now (f emote) emote) es st) = allEmotes st"
  by (induction es arbitrary: st) (simp_all add: emoteCache_set_def)

lemma fold_set_accesses:
  "accesses (fold (\<lambda>emote. emoteCache_set cfg now (f emote) emote) es st)
     = accesses st @ map (\<lambda>emote. CacheSet (f emote)) es"
  by (induction es arbitrary: st) (simp_all add: emoteCache_set_def)

text \<open>After the loop a key holds the last emote written under it, or what it held before.\<close>

lemma fold_set_emoteCache:
  "emoteCache (fold (\<lambda>emote. emoteCache_set cfg now (f emote) emote) es st) k
     = (case find (\<lambda>emote. f emote = k) (rev es) of
          None \<Rightarrow> emoteCache st k
        | Some emote \<Rightarrow>
            Some \<lparr>t = (if cacheTTL cfg = 0 then 0 else now + cacheTTL cfg * 1000), v = emote\<rparr>)"
proof (induction es rule: rev_induct)
  case Nil
  show ?case by simp
next
  case (snoc x xs)
  show ?case using snoc
    by (simp add: emoteCache_set_def NodeCache_set_def)
qed

lemma fetchEmotes_loaded:
  assumes "emoteSetIds cfg \<noteq> []"
      and "map (fetchEmoteSet axios_get) (emoteSetIds cfg) = map Inr ess"
  shows "fetchEmotes cfg axios_get now st =
           (Inr (concat ess),
            fold (\<lambda>emote. emoteCache_set cfg now (toLowerCase (name emote)) emote)
              (concat ess) (st\<lparr>allEmotes := concat ess\<rparr>))"
  using assms
  by (simp add: fetchEmotes_def Promise_all_Inr_iff[THEN iffD2] Let_def fold_set_allEmotes)

lemma map_Inr_eq: "(map Inr xs = map Inr ys) = (xs = ys)"
  by (simp add: inj_map_eq_map)

subsection \<open>Records that pass and records that fail\<close>

lemma SevenTVEmoteSetSchema_JArray:
  "property (JObject kvs) ''emotes'' = JArray rs \<Longrightarrow>
   SevenTVEmoteSetSchema (JObject kvs)
     = bind_result (Promise_all (map SevenTVEmoteSchema rs)) (\<lambda>es. Inr \<lparr>emotes = es\<rparr>)"
  unfolding SevenTVEmoteSetSchema_def z_object_def z_array_def by simp

lemma z_string_not_string: "(\<forall>s. j \<noteq> JString s) \<Longrightarrow> z_string j = Inl ZodError"
  by (cases j) simp_all

lemma z_string_Inr: "z_string j = Inr s \<longleftrightarrow> j = JString s"
  by (cases j) auto

lemma SevenTVEmoteSchema_rejects:
  assumes "(\<forall>s. property r ''id'' \<noteq> JString s) \<or> (\<forall>s. property r ''name'' \<noteq> JString s)"
  shows "SevenTVEmoteSchema r = Inl ZodError"
proof (cases r)
  case (JObject kvs)
  show ?thesis
  proof (cases "z_string (property r ''id'')")
    case (Inl e)
    then have "e = ZodError" by (cases "property r ''id''") auto
    with Inl JObject show ?thesis
      by (simp add: SevenTVEmoteSchema_def z_object_def bind_result_def)
  next
    case (Inr i)
    then have "property r ''id'' = JString i" by (simp add: z_string_Inr)
    with assms have "\<forall>s. property r ''name'' \<noteq> JString s" by blast
    then have "z_string (property r ''name'') = Inl ZodError" by (rule z_string_not_string)
    with Inr JObject show ?thesis
      by (simp add: SevenTVEmoteSchema_def z_object_def bind_result_def)
  qed
qed (simp_all add: SevenTVEmoteSchema_def z_object_def)

lemma SevenTVEmoteSchema_Inr_fields:
  assumes "SevenTVEmoteSchema r = Inr raw"
  shows "property r ''id'' = JString (id_raw raw) \<and> property r ''name'' = JString (name_raw raw)"
proof -
  from assms obtain kvs where r: "r = JObject kvs"
    by (cases r) (simp_all add: SevenTVEmoteSchema_def z_object_def)
  from assms r obtain i where i: "z_string (property r ''id'') = Inr i"
    by (cases "z_string (property r ''id'')")
       (simp_all add: SevenTVEmoteSchema_def z_object_def bind_result_def)
  from assms r i obtain n where n: "z_string (property r ''name'') = Inr n"
    by (cases "z_string (property r ''name'')")
       (simp_all add: SevenTVEmoteSchema_def z_object_def bind_result_def)
  from assms r i n have "id_raw raw = i \<and> name_raw raw = n"
    by (auto simp: SevenTVEmoteSchema_def z_object_def bind_result_def split: sum.splits)
  with i n show ?thesis by (simp add: z_string_Inr)
qed

lemma fetchEmoteSet_rejected_record:
  assumes "axios_get (''https://7tv.io/v3/emote-sets/'' @ sid) = Inr (JObject kvs)"
      and "property (JObject kvs) ''emotes'' = JArray rs"
      and "r \<in> set rs" and "SevenTVEmoteSchema r = Inl e"
  shows "fetchEmoteSet axios_get sid = Inr []"
proof -
  from assms(3,4) have "Inl e \<in> set (map SevenTVEmoteSchema rs)" by force
  then obtain e' where "Promise_all (map SevenTVEmoteSchema rs) = Inl e'"
    using Promise_all_Inl_mem by blast
  with assms(2) have "SevenTVEmoteSetSchema (JObject kvs) = Inl e'"
    by (simp add: SevenTVEmoteSetSchema_JArray bind_result_def)
  with assms(1) show ?thesis by (rule fetchEmoteSet_shape_mismatch)
qed

lemma fetchEmoteSet_all_valid:
  assumes "axios_get (''https://7tv.io/v3/emote-sets/'' @ sid) = Inr (JObject kvs)"
      and "property (JObject kvs) ''emotes'' = JArray rs"
      and "map SevenTVEmoteSchema rs = map Inr raws"
      and "map mapSevenTVEmote raws = map Inr es"
  shows "fetchEmoteSet axios_get sid = Inr es"
proof -
  from assms(2,3) have "SevenTVEmoteSetSchema (JObject kvs) = Inr \<lparr>emotes = raws\<rparr>"
    by (simp add: SevenTVEmoteSetSchema_JArray bind_result_def Promise_all_Inr_iff[THEN iffD2])
  with assms(1) show ?thesis using assms(4) by (simp add: fetchEmoteSet_valid)
qed

lemma fetchEmoteSet_serving_raw_records:
  assumes "map_of table sid = Some (set_response (map (\<lambda>(i, n). raw_record i n) ps))"
  shows "fetchEmoteSet (serving table) sid = Inr (map (\<lambda>(i, n). plain_emote i n) ps)"
proof -
  let ?rs = "map (\<lambda>(i, n). raw_record i n) ps"
  let ?raws = "map (\<lambda>(i, n). \<lparr>id_raw = i, name_raw = n, owner_raw = None,
                  visibility_raw = None, data_raw = \<lparr>mime_raw = None, animated_raw = None\<rparr>,
                  tags_raw = None\<rparr>) ps"
  have "map_of (map (\<lambda>(sid, body). (''https://7tv.io/v3/emote-sets/'' @ sid, body)) table)
          (''https://7tv.io/v3/emote-sets/'' @ sid) = map_of table sid"
    by (induction table) auto
  with assms have a: "serving table (''https://7tv.io/v3/emote-sets/'' @ sid)
                        = Inr (JObject [(''emotes'', JArray ?rs)])"
    by (simp add: serving_def set_response_def)
  have b: "property (JObject [(''emotes'', JArray ?rs)]) ''emotes'' = JArray ?rs" by simp
  have c: "map SevenTVEmoteSchema ?rs = map Inr ?raws"
    by (simp add: SevenTVEmoteSchema_raw_record split_def)
  have d: "map mapSevenTVEmote ?raws = map Inr (map (\<lambda>(i, n). plain_emote i n) ps)"
    by (simp add: mapSevenTVEmote_ok plain_emote_def split_def)
  from a b c d show ?thesis by (rule fetchEmoteSet_all_valid)
qed

lemma serving_unknown:
  "map_of table sid = None \<Longrightarrow> serving table (''https://7tv.io/v3/emote-sets/'' @ sid) = Inl AxiosError"
proof -
  assume n: "map_of table sid = None"
  have "map_of (map (\<lambda>(sid, body). (''https://7tv.io/v3/emote-sets/'' @ sid, body)) table)
          (''https://7tv.io/v3/emote-sets/'' @ sid) = map_of table sid"
    by (induction table) auto
  with n show ?thesis by (simp add: serving_def)
qed

lemma fetchEmotes_never_throws:
  "\<exists>es. fst (fetchEmotes cfg axios_get now st) = Inr es"
proof (cases "emoteSetIds cfg = []")
  case True
  then show ?thesis by (simp add: fetchEmotes_def)
next
  case False
  obtain ess where "map (fetchEmoteSet axios_get) (emoteSetIds cfg) = map Inr ess"
    using fetchEmoteSets_total by blast
  with False show ?thesis by (simp add: fetchEmotes_loaded)
qed

subsection \<open>Case mappings and trim\<close>

lemma of_char_toUpperChar_letter:
  assumes "97 \<le> (of_char c :: nat)" and "(of_char c :: nat) \<le> 122"
  shows "(of_char (toUpperChar c) :: nat) = of_char c - 32"
proof -
  define n where "n = (of_char c :: nat)"
  from assms have "n - 32 < 256" by (simp add: n_def)
  then have "(n - 32) mod 256 = n - 32" by (rule mod_less)
  with assms show ?thesis by (simp add: toUpperChar_def n_def)
qed

lemma toLowerChar_toUpperChar: "toLowerChar (toUpperChar c) = toLowerChar c"
proof (cases "97 \<le> (of_char c :: nat) \<and> (of_char c :: nat) \<le> 122")
  case True
  then have o: "(of_char (toUpperChar c) :: nat) = of_char c - 32"
    by (simp add: of_char_toUpperChar_letter)
  from True have "\<not> 192 \<le> (of_char c :: nat)" "\<not> (of_char c :: nat) \<le> 90" by arith+
  then have "toLowerChar c = c" by (simp add: toLowerChar_def)
  moreover from True have "65 \<le> (of_char c :: nat) - 32" "(of_char c :: nat) - 32 \<le> 90"
    "(of_char c :: nat) - 32 + 32 = of_char c" by arith+
  with o have "toLowerChar (toUpperChar c) = c"
    by (simp add: toLowerChar_def Let_def)
  ultimately show ?thesis by simp
next
  case False
  then show ?thesis by (auto simp: toUpperChar_def)
qed

lemma toLowerCase_toUpperCase: "toLowerCase (toUpperCase s) = toLowerCase s"
  by (simp add: toLowerCase_def toUpperCase_def toLowerChar_toUpperChar)

lemma isWhiteSpace_toUpperChar: "isWhiteSpace (toUpperChar c) = isWhiteSpace c"
proof (cases "97 \<le> (of_char c :: nat) \<and> (of_char c :: nat) \<le> 122")
  case True
  then have "(of_char (toUpperChar c) :: nat) = of_char c - 32"
    by (simp add: of_char_toUpperChar_letter)
  moreover from True have "\<not> (of_char c :: nat) - 32 \<le> 13" "(of_char c :: nat) - 32 \<noteq> 32"
    "\<not> (of_char c :: nat) \<le> 13" "(of_char c :: nat) \<noteq> 32"
    "(of_char c :: nat) - 32 \<noteq> 160" "(of_char c :: nat) \<noteq> 160" by arith+
  ultimately show ?thesis by (simp add: isWhiteSpace_def Let_def)
next
  case False
  then show ?thesis by (auto simp: toUpperChar_def)
qed

lemma dropWhile_isWhiteSpace_toUpperCase:
  "dropWhile isWhiteSpace (map toUpperChar s) = map toUpperChar (dropWhile isWhiteSpace s)"
  by (induction s) (simp_all add: isWhiteSpace_toUpperChar)

lemma trim_toUpperCase: "trim (toUpperCase s) = toUpperCase (trim s)"
proof -
  have "trim (map toUpperChar s)
      = rev (dropWhile isWhiteSpace (map toUpperChar (rev (dropWhile isWhiteSpace s))))"
    by (simp only: trim_def dropWhile_isWhiteSpace_toUpperCase rev_map)
  also have "\<dots> = map toUpperChar (trim s)"
    by (simp only: trim_def dropWhile_isWhiteSpace_toUpperCase rev_map)
  finally show ?thesis by (simp add: toUpperCase_def)
qed

lemma toUpperCase_Nil: "toUpperCase s = [] \<longleftrightarrow> s = []"
  by (simp add: toUpperCase_def)

subsection \<open>findEmote and the state after a load\<close>

lemma findEmote_result:
  assumes "nm \<noteq> []"
  shows "fst (findEmote cfg now nm st) =
     (case emoteCache st (toLowerCase (trim nm)) of
        None \<Rightarrow> find (\<lambda>e. toLowerCase (name e) = toLowerCase (trim nm)) (allEmotes st)
      | Some en \<Rightarrow>
          if expired now en
          then find (\<lambda>e. toLowerCase (name e) = toLowerCase (trim nm)) (allEmotes st)
          else Some (v en))"
  using assms
  by (simp add: findEmote_def emoteCache_get_def NodeCache_get_def Let_def
      split: option.split)

lemma findEmote_allEmotes: "allEmotes (snd (findEmote cfg now nm st)) = allEmotes st"
  by (simp add: findEmote_def emoteCache_get_def NodeCache_get_def emoteCache_set_def Let_def
      split: option.split)



lemma fetchEmotes_state:
  assumes "emoteSetIds cfg \<noteq> []"
  shows "\<exists>ess. map (fetchEmoteSet axios_get) (emoteSetIds cfg) = map Inr ess
           \<and> fst (fetchEmotes cfg axios_get now st) = Inr (concat ess)
           \<and> allEmotes (snd (fetchEmotes cfg axios_get now st)) = concat ess
           \<and> (\<forall>k. emoteCache (snd (fetchEmotes cfg axios_get now st)) k =
                 (case find (\<lambda>e. toLowerCase (name e) = k) (rev (concat ess)) of
                    None \<Rightarrow> emoteCache st k
                  | Some e \<Rightarrow> Some \<lparr>t = (if cacheTTL cfg = 0 then 0 else now + cacheTTL cfg * 1000),
                                     v = e\<rparr>))
           \<and> accesses (snd (fetchEmotes cfg axios_get now st)) =
               accesses st @ map (\<lambda>e. CacheSet (toLowerCase (name e))) (concat ess)"
proof -
  obtain ess where m: "map (fetchEmoteSet axios_get) (emoteSetIds cfg) = map Inr ess"
    using fetchEmoteSets_total by blast
  from fetchEmotes_loaded [OF assms m, of now st] m show ?thesis
    by (intro exI[of _ ess])
       (simp add: fold_set_allEmotes fold_set_emoteCache fold_set_accesses cong: option.case_cong)
qed

lemma reachable_no_sets:
  "reachable cfg st \<Longrightarrow> emoteSetIds cfg = [] \<Longrightarrow> allEmotes st = []"
proof (induction rule: reachable.induct)
  case start
  show ?case by (simp add: initial_def)
next
  case (load st axios_get now)
  then show ?case by (simp add: fetchEmotes_def)
next
  case (refresh st axios_get now)
  then show ?case by (simp add: refreshEmotes_def fetchEmotes_def emoteCache_flushAll_def)
next
  case (lookup st now emoteName)
  then show ?case by (simp add: findEmote_allEmotes)
qed

lemma fetchEmotes_state_of:
  assumes "emoteSetIds cfg \<noteq> []"
      and "map (fetchEmoteSet axios_get) (emoteSetIds cfg) = map Inr ess"
  shows "fst (fetchEmotes cfg axios_get now st) = Inr (concat ess)"
    and "allEmotes (snd (fetchEmotes cfg axios_get now st)) = concat ess"
    and "emoteCache (snd (fetchEmotes cfg axios_get now st)) k =
           (case find (\<lambda>e. toLowerCase (name e) = k) (rev (concat ess)) of
              None \<Rightarrow> emoteCache st k
            | Some e \<Rightarrow> Some \<lparr>t = (if cacheTTL cfg = 0 then 0 else now + cacheTTL cfg * 1000),
                               v = e\<rparr>)"
    and "accesses (snd (fetchEmotes cfg axios_get now st)) =
           accesses st @ map (\<lambda>e. CacheSet (toLowerCase (name e))) (concat ess)"
  using fetchEmotes_loaded [OF assms, of now st]
  by (simp_all add: fold_set_allEmotes fold_set_emoteCache fold_set_accesses
      cong: option.case_cong)

lemma find_Some_mem: "find P xs = Some x \<Longrightarrow> x \<in> set xs \<and> P x"
  by (induction xs) (auto split: if_splits)

lemma find_exists: "x \<in> set xs \<Longrightarrow> P x \<Longrightarrow> \<exists>y. find P xs = Some y"
  by (cases "find P xs") (auto simp: find_None_iff)

text \<open>A lookup whose normalized name is carried by some loaded emote always succeeds.\<close>

lemma findEmote_after_load_key:
  assumes ids: "emoteSetIds cfg \<noteq> []"
      and e: "e \<in> set (allEmotes (snd (fetchEmotes cfg axios_get now st)))"
      and nm: "nm \<noteq> []" and k: "toLowerCase (trim nm) = toLowerCase (name e)"
  shows "\<exists>f. fst (findEmote cfg now' nm (snd (fetchEmotes cfg axios_get now st))) = Some f
            \<and> f \<in> set (allEmotes (snd (fetchEmotes cfg axios_get now st)))
            \<and> toLowerCase (name f) = toLowerCase (name e)"
proof -
  let ?st' = "snd (fetchEmotes cfg axios_get now st)"
  let ?P = "\<lambda>x. toLowerCase (name x) = toLowerCase (name e)"
  from fetchEmotes_state [OF ids, of axios_get now st] obtain ess
    where all: "allEmotes ?st' = concat ess"
      and cache: "\<And>k. emoteCache ?st' k =
                 (case find (\<lambda>e. toLowerCase (name e) = k) (rev (concat ess)) of
                    None \<Rightarrow> emoteCache st k
                  | Some e \<Rightarrow> Some \<lparr>t = (if cacheTTL cfg = 0 then 0 else now + cacheTTL cfg * 1000),
                                     v = e\<rparr>)"
    by blast
  from e all have "e \<in> set (rev (concat ess))" by simp
  then obtain l where l: "find ?P (rev (concat ess)) = Some l"
    using find_exists [of e "rev (concat ess)" ?P] by blast
  then have lm: "l \<in> set (allEmotes ?st') \<and> ?P l"
    using find_Some_mem [of ?P "rev (concat ess)" l] all by simp
  from e obtain f where f: "find ?P (allEmotes ?st') = Some f"
    using find_exists [of e "allEmotes ?st'" ?P] by blast
  then have fm: "f \<in> set (allEmotes ?st') \<and> ?P f"
    using find_Some_mem [of ?P "allEmotes ?st'" f] by simp
  from cache [of "toLowerCase (name e)"] l
  have c: "emoteCache ?st' (toLowerCase (trim nm)) =
      Some \<lparr>t = (if cacheTTL cfg = 0 then 0 else now + cacheTTL cfg * 1000), v = l\<rparr>"
    by (simp add: k)
  from findEmote_result [OF nm, of cfg now' ?st'] c f
  have "fst (findEmote cfg now' nm ?st') = Some l \<or> fst (findEmote cfg now' nm ?st') = Some f"
    by (simp add: k split: if_splits)
  with lm fm show ?thesis by auto
qed





section \<open>The claims\<close>

text \<open>
  C1, as amended. A set response with a record that lacks \<open>id\<close> or \<open>name\<close> makes the
  validation of the whole response fail, and \<open>fetchEmoteSet\<close> returns the empty list:
  the valid records of that set are lost with it. When every record validates, the result
  has one Emote per record, in the order of the response.
\<close>

theorem fetchEmoteSet_drops_whole_set:
  assumes "axios_get (''https://7tv.io/v3/emote-sets/'' @ sid) = Inr (JObject kvs)"
      and "property (JObject kvs) ''emotes'' = JArray rs"
  shows "((\<exists>r \<in> set rs. property r ''id'' = JUndefined \<or> property r ''name'' = JUndefined)
            \<longrightarrow> fetchEmoteSet axios_get sid = Inr [])
       \<and> (map SevenTVEmoteSchema rs = map Inr raws
            \<longrightarrow> (\<exists>es. fetchEmoteSet axios_get sid = Inr es \<and> length es = length rs
                      \<and> map mapSevenTVEmote raws = map Inr es))"
proof (intro conjI impI)
  assume "\<exists>r \<in> set rs. property r ''id'' = JUndefined \<or> property r ''name'' = JUndefined"
  then obtain r where r: "r \<in> set rs"
    and "property r ''id'' = JUndefined \<or> property r ''name'' = JUndefined" by blast
  then have "SevenTVEmoteSchema r = Inl ZodError"
    by (intro SevenTVEmoteSchema_rejects) auto
  with assms r show "fetchEmoteSet axios_get sid = Inr []"
    by (rule fetchEmoteSet_rejected_record)
next
  assume v: "map SevenTVEmoteSchema rs = map Inr raws"
  have "\<And>x. \<exists>y. mapSevenTVEmote x = Inr y" by (simp add: mapSevenTVEmote_ok)
  then obtain es where es: "map mapSevenTVEmote raws = map Inr es"
    using map_total_Inr[of mapSevenTVEmote raws] by blast
  from v have "length rs = length raws" by (metis length_map)
  moreover from es have "length raws = length es" by (metis length_map)
  moreover from assms v es have "fetchEmoteSet axios_get sid = Inr es"
    by (rule fetchEmoteSet_all_valid)
  ultimately show "\<exists>es. fetchEmoteSet axios_get sid = Inr es \<and> length es = length rs
                      \<and> map mapSevenTVEmote raws = map Inr es"
    using es by auto
qed

theorem fetchEmoteSet_drops_whole_set_witness:
  "serving [(''A'', set_response
        [raw_record ''1'' ''a'',
         JObject [(''name'', JString ''b''), (''data'', JObject [])],
         raw_record ''3'' ''c''])] (''https://7tv.io/v3/emote-sets/'' @ ''A'')
     = Inr (JObject [(''emotes'', JArray
        [raw_record ''1'' ''a'',
         JObject [(''name'', JString ''b''), (''data'', JObject [])],
         raw_record ''3'' ''c''])])
   \<and> property (JObject [(''name'', JString ''b''), (''data'', JObject [])]) ''id'' = JUndefined
   \<and> fetchEmoteSet
       (serving [(''A'', set_response
          [raw_record ''1'' ''a'',
           JObject [(''name'', JString ''b''), (''data'', JObject [])],
           raw_record ''3'' ''c''])]) ''A'' = Inr []
   \<and> fetchEmoteSet
       (serving [(''A'', set_response [raw_record ''1'' ''a'', raw_record ''3'' ''c''])]) ''A''
     = Inr [plain_emote ''1'' ''a'', plain_emote ''3'' ''c'']"
proof -
  let ?bad = "JObject [(''name'', JString ''b''), (''data'', JObject [])]"
  let ?rs = "[raw_record ''1'' ''a'', ?bad, raw_record ''3'' ''c'']"
  let ?rs' = "[raw_record ''1'' ''a'', raw_record ''3'' ''c'']"
  have a: "serving [(''A'', set_response ?rs)] (''https://7tv.io/v3/emote-sets/'' @ ''A'')
             = Inr (JObject [(''emotes'', JArray ?rs)])"
    by (simp add: serving_def set_response_def)
  have b: "property (JObject [(''emotes'', JArray ?rs)]) ''emotes'' = JArray ?rs" by simp
  have c: "property ?bad ''id'' = JUndefined" by simp
  have a': "serving [(''A'', set_response ?rs')] (''https://7tv.io/v3/emote-sets/'' @ ''A'')
             = Inr (JObject [(''emotes'', JArray ?rs')])"
    by (simp add: serving_def set_response_def)
  have b': "property (JObject [(''emotes'', JArray ?rs')]) ''emotes'' = JArray ?rs'" by simp
  let ?raws = "[\<lparr>id_raw = ''1'', name_raw = ''a'', owner_raw = None, visibility_raw = None,
                   data_raw = \<lparr>mime_raw = None, animated_raw = None\<rparr>, tags_raw = None\<rparr>,
                  \<lparr>id_raw = ''3'', name_raw = ''c'', owner_raw = None, visibility_raw = None,
                   data_raw = \<lparr>mime_raw = None, animated_raw = None\<rparr>, tags_raw = None\<rparr>]"
  have d: "map SevenTVEmoteSchema ?rs' = map Inr ?raws"
    by (simp add: SevenTVEmoteSchema_raw_record)
  from fetchEmoteSet_drops_whole_set
         [where axios_get = "serving [(''A'', set_response ?rs)]" and sid = "''A''"
            and kvs = "[(''emotes'', JArray ?rs)]" and rs = ?rs, OF a b, THEN conjunct1] c
  have 1: "fetchEmoteSet (serving [(''A'', set_response ?rs)]) ''A'' = Inr []" by simp
  from fetchEmoteSet_drops_whole_set
         [where axios_get = "serving [(''A'', set_response ?rs')]" and sid = "''A''"
            and kvs = "[(''emotes'', JArray ?rs')]" and rs = ?rs' and raws = ?raws,
          OF a' b', THEN conjunct2, THEN mp, OF d]
  obtain es where es: "fetchEmoteSet (serving [(''A'', set_response ?rs')]) ''A'' = Inr es"
    and m: "map mapSevenTVEmote ?raws = map Inr es" by blast
  have "map mapSevenTVEmote ?raws = map Inr [plain_emote ''1'' ''a'', plain_emote ''3'' ''c'']"
    by (simp add: mapSevenTVEmote_ok plain_emote_def)
  with m have "es = [plain_emote ''1'' ''a'', plain_emote ''3'' ''c'']"
    by (simp only: map_Inr_eq)
  with es have 2: "fetchEmoteSet (serving [(''A'', set_response ?rs')]) ''A''
             = Inr [plain_emote ''1'' ''a'', plain_emote ''3'' ''c'']" by simp
  from a c 1 2 show ?thesis by simp
qed

text \<open>
  C1 as stated fails: one record without \<open>id\<close> between two valid records gives no
  Emote at all, not the two valid ones.
\<close>

theorem fetchEmoteSet_malformed_counterexample:
  "fetchEmoteSet
     (serving [(''A'', set_response
        [raw_record ''1'' ''a'',
         JObject [(''name'', JString ''b''), (''data'', JObject [])],
         raw_record ''3'' ''c''])]) ''A''
   = Inr []
   \<and> Inr [] \<noteq> (Inr [plain_emote ''1'' ''a'', plain_emote ''3'' ''c''] :: exn + Emote list)"
proof -
  let ?bad = "JObject [(''name'', JString ''b''), (''data'', JObject [])]"
  let ?rs = "[raw_record ''1'' ''a'', ?bad, raw_record ''3'' ''c'']"
  have a: "serving [(''A'', set_response ?rs)] (''https://7tv.io/v3/emote-sets/'' @ ''A'')
             = Inr (JObject [(''emotes'', JArray ?rs)])"
    by (simp add: serving_def set_response_def)
  have b: "property (JObject [(''emotes'', JArray ?rs)]) ''emotes'' = JArray ?rs" by simp
  have c: "SevenTVEmoteSchema ?bad = Inl ZodError"
    by (rule SevenTVEmoteSchema_rejects) simp
  have d: "?bad \<in> set ?rs" by simp
  from a b d c have "fetchEmoteSet (serving [(''A'', set_response ?rs)]) ''A'' = Inr []"
    by (rule fetchEmoteSet_rejected_record)
  then show ?thesis by simp
qed

text \<open>
  C2, as amended. Validation of a raw record fails when \<open>id\<close> or \<open>name\<close> is missing
  or is not a string; an empty string passes. From a record that validates,
  \<open>mapSevenTVEmote\<close> always builds an Emote, whose \<open>id\<close> and \<open>name\<close> are the record's.
\<close>

theorem Emote_construction:
  "((\<forall>s. property r ''id'' \<noteq> JString s) \<or> (\<forall>s. property r ''name'' \<noteq> JString s)
      \<longrightarrow> SevenTVEmoteSchema r = Inl ZodError)
   \<and> (SevenTVEmoteSchema r = Inr raw
      \<longrightarrow> (\<exists>e. mapSevenTVEmote raw = Inr e
             \<and> property r ''id'' = JString (id' e) \<and> property r ''name'' = JString (name e)))"
proof (intro conjI impI)
  assume "(\<forall>s. property r ''id'' \<noteq> JString s) \<or> (\<forall>s. property r ''name'' \<noteq> JString s)"
  then show "SevenTVEmoteSchema r = Inl ZodError" by (rule SevenTVEmoteSchema_rejects)
next
  assume "SevenTVEmoteSchema r = Inr raw"
  then have "property r ''id'' = JString (id_raw raw) \<and> property r ''name'' = JString (name_raw raw)"
    by (rule SevenTVEmoteSchema_Inr_fields)
  then show "\<exists>e. mapSevenTVEmote raw = Inr e
             \<and> property r ''id'' = JString (id' e) \<and> property r ''name'' = JString (name e)"
    by (simp add: mapSevenTVEmote_ok)
qed

theorem Emote_construction_witness:
  "(\<forall>s. property (JObject [(''name'', JString ''b''), (''data'', JObject [])]) ''id'' \<noteq> JString s)
   \<and> SevenTVEmoteSchema (JObject [(''name'', JString ''b''), (''data'', JObject [])]) = Inl ZodError
   \<and> SevenTVEmoteSchema (raw_record ''1'' ''a'')
       = Inr \<lparr>id_raw = ''1'', name_raw = ''a'', owner_raw = None, visibility_raw = None,
              data_raw = \<lparr>mime_raw = None, animated_raw = None\<rparr>, tags_raw = None\<rparr>
   \<and> (\<exists>e. mapSevenTVEmote
              \<lparr>id_raw = ''1'', name_raw = ''a'', owner_raw = None, visibility_raw = None,
               data_raw = \<lparr>mime_raw = None, animated_raw = None\<rparr>, tags_raw = None\<rparr> = Inr e
          \<and> property (raw_record ''1'' ''a'') ''id'' = JString (id' e)
          \<and> property (raw_record ''1'' ''a'') ''name'' = JString (name e))"
proof -
  let ?bad = "JObject [(''name'', JString ''b''), (''data'', JObject [])]"
  let ?raw = "\<lparr>id_raw = ''1'', name_raw = ''a'', owner_raw = None, visibility_raw = None,
               data_raw = \<lparr>mime_raw = None, animated_raw = None\<rparr>, tags_raw = None\<rparr>"
  have a: "\<forall>s. property ?bad ''id'' \<noteq> JString s" by simp
  have b: "SevenTVEmoteSchema (raw_record ''1'' ''a'') = Inr ?raw"
    by (rule SevenTVEmoteSchema_raw_record)
  from Emote_construction [of ?bad] a have 1: "SevenTVEmoteSchema ?bad = Inl ZodError" by blast
  from Emote_construction [of "raw_record ''1'' ''a''" ?raw] b
  have 2: "\<exists>e. mapSevenTVEmote ?raw = Inr e
          \<and> property (raw_record ''1'' ''a'') ''id'' = JString (id' e)
          \<and> property (raw_record ''1'' ''a'') ''name'' = JString (name e)" by blast
  from a b 1 2 show ?thesis by blast
qed

text \<open>
  C2 as stated fails: a record whose \<open>id\<close> and \<open>name\<close> are empty strings is
  accepted, and the Emote built from it has an empty \<open>id\<close> and an empty \<open>name\<close>.
\<close>

theorem Emote_construction_empty_counterexample:
  "bind_result (SevenTVEmoteSchema (raw_record [] [])) mapSevenTVEmote = Inr (plain_emote [] [])
   \<and> id' (plain_emote [] []) = [] \<and> name (plain_emote [] []) = []"
  by (simp add: SevenTVEmoteSchema_raw_record bind_result_def mapSevenTVEmote_ok plain_emote_def)

text \<open>
  C3, as amended. Let \<open>e\<close> be an emote present after a load over a non-empty set list,
  whose name is non-empty, ASCII, without white space at either end, and whose lowercase
  name is shared only with emotes of the same id. Then \<open>findEmote\<close> with \<open>e\<close>'s name
  and with its upper-case form both return an emote whose id is \<open>e\<close>'s, at any later
  time (from the cache while the entry lives, from the scan afterwards). The restriction
  to ASCII is the range on which \<open>toUpperCase\<close> of the model is JavaScript's.
\<close>

theorem findEmote_after_load:
  assumes "emoteSetIds cfg \<noteq> []"
      and "e \<in> set (allEmotes (snd (fetchEmotes cfg axios_get now st)))"
      and "name e \<noteq> []" and "trim (name e) = name e" and "isAscii (name e)"
      and "\<forall>e' \<in> set (allEmotes (snd (fetchEmotes cfg axios_get now st))).
             toLowerCase (name e') = toLowerCase (name e) \<longrightarrow> id' e' = id' e"
  shows "(\<exists>f. fst (findEmote cfg now' (name e) (snd (fetchEmotes cfg axios_get now st))) = Some f
              \<and> id' f = id' e)
       \<and> (\<exists>f. fst (findEmote cfg now' (toUpperCase (name e))
                      (snd (fetchEmotes cfg axios_get now st))) = Some f
              \<and> id' f = id' e)"
proof (intro conjI)
  from assms(4) have "toLowerCase (trim (name e)) = toLowerCase (name e)" by simp
  from findEmote_after_load_key [OF assms(1,2,3) this, of now'] assms(6)
  show "\<exists>f. fst (findEmote cfg now' (name e) (snd (fetchEmotes cfg axios_get now st))) = Some f
              \<and> id' f = id' e" by blast
next
  from assms(3) have n: "toUpperCase (name e) \<noteq> []" by (simp add: toUpperCase_Nil)
  from assms(4) have "toLowerCase (trim (toUpperCase (name e))) = toLowerCase (name e)"
    by (simp add: trim_toUpperCase toLowerCase_toUpperCase)
  from findEmote_after_load_key [OF assms(1,2) n this, of now'] assms(6)
  show "\<exists>f. fst (findEmote cfg now' (toUpperCase (name e))
                      (snd (fetchEmotes cfg axios_get now st))) = Some f
              \<and> id' f = id' e" by blast
qed

theorem findEmote_after_load_witness:
  "emoteSetIds (example_config [''A''] 3600) \<noteq> []
   \<and> allEmotes (snd (fetchEmotes (example_config [''A''] 3600)
        (serving [(''A'', set_response [raw_record ''1'' ''Kappa'', raw_record ''2'' ''LUL''])])
        0 initial))
       = [plain_emote ''1'' ''Kappa'', plain_emote ''2'' ''LUL'']
   \<and> name (plain_emote ''1'' ''Kappa'') \<noteq> []
   \<and> trim (name (plain_emote ''1'' ''Kappa'')) = name (plain_emote ''1'' ''Kappa'')
   \<and> isAscii (name (plain_emote ''1'' ''Kappa''))
   \<and> toUpperCase (name (plain_emote ''1'' ''Kappa'')) = ''KAPPA''
   \<and> (\<exists>f. fst (findEmote (example_config [''A''] 3600) 5000 ''Kappa''
              (snd (fetchEmotes (example_config [''A''] 3600)
                (serving [(''A'', set_response [raw_record ''1'' ''Kappa'', raw_record ''2'' ''LUL''])])
                0 initial))) = Some f
          \<and> id' f = ''1'')
   \<and> (\<exists>f. fst (findEmote (example_config [''A''] 3600) 5000 ''KAPPA''
              (snd (fetchEmotes (example_config [''A''] 3600)
                (serving [(''A'', set_response [raw_record ''1'' ''Kappa'', raw_record ''2'' ''LUL''])])
                0 initial))) = Some f
          \<and> id' f = ''1'')"
proof -
  let ?cfg = "example_config [''A''] 3600"
  let ?up = "serving [(''A'', set_response [raw_record ''1'' ''Kappa'', raw_record ''2'' ''LUL''])]"
  let ?e = "plain_emote ''1'' ''Kappa''"
  let ?es = "[?e, plain_emote ''2'' ''LUL'']"
  let ?st = "snd (fetchEmotes ?cfg ?up 0 initial)"
  have fa: "fetchEmoteSet ?up ''A'' = Inr ?es"
    using fetchEmoteSet_serving_raw_records
      [where sid = "''A''" and ps = "[(''1'', ''Kappa''), (''2'', ''LUL'')]"
         and table = "[(''A'', set_response [raw_record ''1'' ''Kappa'', raw_record ''2'' ''LUL''])]"]
    by simp
  have ne: "emoteSetIds ?cfg \<noteq> []" by (simp add: example_config_def)
  have m: "map (fetchEmoteSet ?up) (emoteSetIds ?cfg) = map Inr [?es]"
    by (simp add: example_config_def fa)
  have all: "allEmotes ?st = ?es"
    using fetchEmotes_state_of(2) [OF ne m, of 0 initial] by simp
  have s: "toLowerCase ''Kappa'' = ''kappa''" "toLowerCase ''LUL'' = ''lul''"
    "trim ''Kappa'' = ''Kappa''" "toUpperCase ''Kappa'' = ''KAPPA''" "isAscii ''Kappa''"
    by code_simp+
  have n: "name ?e = ''Kappa''" "id' ?e = ''1''" by (simp_all add: plain_emote_def)
  have h2: "?e \<in> set (allEmotes ?st)" by (simp add: all)
  have h3: "name ?e \<noteq> []" by (simp add: n)
  have h4: "trim (name ?e) = name ?e" by (simp add: n s)
  have h5: "isAscii (name ?e)" by (simp add: n s)
  have h6: "\<forall>e' \<in> set (allEmotes ?st). toLowerCase (name e') = toLowerCase (name ?e) \<longrightarrow> id' e' = id' ?e"
    by (simp add: all plain_emote_def s)
  from findEmote_after_load [OF ne h2 h3 h4 h5 h6, of 5000] all h3 h4 h5
  show ?thesis by (simp add: n s ne)
qed

text \<open>
  C3 as stated fails in three ways. After loading a set with the emotes \<open>X\<close> (id 1),
  \<open>x\<close> (id 2), one whose name starts with a space (id 3) and one with the empty name
  (id 4): looking up \<open>X\<close> returns the emote with id 2; looking up the padded name finds
  nothing, because the lookup trims and the stored name is not trimmed; looking up the
  empty name finds nothing.
\<close>

theorem findEmote_after_load_counterexample:
  "plain_emote ''1'' ''X'' \<in> set (allEmotes (snd (fetchEmotes (example_config [''A''] 3600)
      (serving [(''A'', set_response [raw_record ''1'' ''X'', raw_record ''2'' ''x'',
                                      raw_record ''3'' '' pad'', raw_record ''4'' []])])
      0 initial)))
   \<and> fst (findEmote (example_config [''A''] 3600) 0 ''X''
        (snd (fetchEmotes (example_config [''A''] 3600)
          (serving [(''A'', set_response [raw_record ''1'' ''X'', raw_record ''2'' ''x'',
                                          raw_record ''3'' '' pad'', raw_record ''4'' []])])
          0 initial)))
       = Some (plain_emote ''2'' ''x'')
   \<and> id' (plain_emote ''2'' ''x'') \<noteq> id' (plain_emote ''1'' ''X'')
   \<and> plain_emote ''3'' '' pad'' \<in> set (allEmotes (snd (fetchEmotes (example_config [''A''] 3600)
      (serving [(''A'', set_response [raw_record ''1'' ''X'', raw_record ''2'' ''x'',
                                      raw_record ''3'' '' pad'', raw_record ''4'' []])])
      0 initial)))
   \<and> fst (findEmote (example_config [''A''] 3600) 0 '' pad''
        (snd (fetchEmotes (example_config [''A''] 3600)
          (serving [(''A'', set_response [raw_record ''1'' ''X'', raw_record ''2'' ''x'',
                                          raw_record ''3'' '' pad'', raw_record ''4'' []])])
          0 initial)))
       = None
   \<and> plain_emote ''4'' [] \<in> set (allEmotes (snd (fetchEmotes (example_config [''A''] 3600)
      (serving [(''A'', set_response [raw_record ''1'' ''X'', raw_record ''2'' ''x'',
                                      raw_record ''3'' '' pad'', raw_record ''4'' []])])
      0 initial)))
   \<and> fst (findEmote (example_config [''A''] 3600) 0 []
        (snd (fetchEmotes (example_config [''A''] 3600)
          (serving [(''A'', set_response [raw_record ''1'' ''X'', raw_record ''2'' ''x'',
                                          raw_record ''3'' '' pad'', raw_record ''4'' []])])
          0 initial)))
       = None"
proof -
  let ?cfg = "example_config [''A''] 3600"
  let ?up = "serving [(''A'', set_response [raw_record ''1'' ''X'', raw_record ''2'' ''x'',
                                            raw_record ''3'' '' pad'', raw_record ''4'' []])]"
  let ?es = "[plain_emote ''1'' ''X'', plain_emote ''2'' ''x'', plain_emote ''3'' '' pad'',
              plain_emote ''4'' []]"
  let ?st = "snd (fetchEmotes ?cfg ?up 0 initial)"
  have fa: "fetchEmoteSet ?up ''A'' = Inr ?es"
    using fetchEmoteSet_serving_raw_records
      [where sid = "''A''" and ps = "[(''1'', ''X''), (''2'', ''x''), (''3'', '' pad''), (''4'', [])]"
         and table = "[(''A'', set_response [raw_record ''1'' ''X'', raw_record ''2'' ''x'',
                                            raw_record ''3'' '' pad'', raw_record ''4'' []])]"]
    by simp
  have ne: "emoteSetIds ?cfg \<noteq> []" by (simp add: example_config_def)
  have m: "map (fetchEmoteSet ?up) (emoteSetIds ?cfg) = map Inr [?es]"
    by (simp add: example_config_def fa)
  have all: "allEmotes ?st = ?es"
    using fetchEmotes_state_of(2) [OF ne m, of 0 initial] by simp
  have s: "toLowerCase ''X'' = ''x''" "toLowerCase ''x'' = ''x''"
    "toLowerCase '' pad'' = '' pad''" "toLowerCase ''pad'' = ''pad''" "toLowerCase [] = []"
    "trim ''X'' = ''X''" "trim '' pad'' = ''pad''"
    by code_simp+
  have cx: "emoteCache ?st ''x'' = Some \<lparr>t = 3600000, v = plain_emote ''2'' ''x''\<rparr>"
    using fetchEmotes_state_of(3) [OF ne m, of 0 initial "''x''"]
    by (simp add: plain_emote_def s example_config_def)
  have cp: "emoteCache ?st ''pad'' = None"
    using fetchEmotes_state_of(3) [OF ne m, of 0 initial "''pad''"]
    by (simp add: plain_emote_def s initial_def)
  have 1: "fst (findEmote ?cfg 0 ''X'' ?st) = Some (plain_emote ''2'' ''x'')"
    using findEmote_result [of "''X''" ?cfg 0 ?st] cx by (simp add: s expired_def)
  have 2: "fst (findEmote ?cfg 0 '' pad'' ?st) = None"
    using findEmote_result [of "'' pad''" ?cfg 0 ?st] cp
    by (simp add: s all plain_emote_def)
  have 3: "fst (findEmote ?cfg 0 [] ?st) = None" by (simp add: findEmote_def)
  have 4: "id' (plain_emote ''2'' ''x'') \<noteq> id' (plain_emote ''1'' ''X'')"
    by (simp add: plain_emote_def)
  from all 1 2 3 4 show ?thesis by simp
qed

text \<open>
  C4. In every state the module can reach, after \<open>fetchEmotes\<close> and after
  \<open>refreshEmotes\<close> the list \<open>allEmotes\<close> is the concatenation of the results of
  \<open>fetchEmoteSet\<close> for the configured set identifiers, in their configured order, and
  that list is also what the call returns: nothing of the previous contents remains. With
  an empty set list the call returns early and \<open>allEmotes\<close> is the empty list it has
  always been.
\<close>

theorem fetchEmotes_replaces_allEmotes:
  assumes "reachable cfg st"
  shows "\<exists>ess. map (fetchEmoteSet axios_get) (emoteSetIds cfg) = map Inr ess
           \<and> fst (fetchEmotes cfg axios_get now st) = Inr (concat ess)
           \<and> allEmotes (snd (fetchEmotes cfg axios_get now st)) = concat ess
           \<and> fst (refreshEmotes cfg axios_get now st) = Inr (concat ess)
           \<and> allEmotes (snd (refreshEmotes cfg axios_get now st)) = concat ess"
proof (cases "emoteSetIds cfg = []")
  case True
  from reachable_no_sets [OF assms True] have "allEmotes st = []" .
  with True show ?thesis
    by (simp add: fetchEmotes_def refreshEmotes_def emoteCache_flushAll_def)
next
  case False
  obtain ess where m: "map (fetchEmoteSet axios_get) (emoteSetIds cfg) = map Inr ess"
    using fetchEmoteSets_total by blast
  from fetchEmotes_loaded [OF False m, of now st]
       fetchEmotes_loaded [OF False m, of now "emoteCache_flushAll st"] m
  show ?thesis
    by (intro exI[of _ ess]) (simp add: fold_set_allEmotes refreshEmotes_def)
qed

theorem fetchEmotes_replaces_allEmotes_witness:
  "reachable (example_config [''A'', ''B''] 3600)
     (snd (fetchEmotes (example_config [''A'', ''B''] 3600)
        (serving [(''A'', set_response [raw_record ''1'' ''a'']),
                  (''B'', set_response [raw_record ''2'' ''b''])]) 0 initial))
   \<and> allEmotes (snd (fetchEmotes (example_config [''A'', ''B''] 3600)
        (serving [(''A'', set_response [raw_record ''1'' ''a'']),
                  (''B'', set_response [raw_record ''2'' ''b''])]) 0 initial))
       = [plain_emote ''1'' ''a'', plain_emote ''2'' ''b'']
   \<and> fst (fetchEmotes (example_config [''A'', ''B''] 3600)
        (serving [(''A'', set_response [raw_record ''2'' ''b'', raw_record ''3'' ''c'']),
                  (''B'', set_response [raw_record ''4'' ''d''])]) 1000
        (snd (fetchEmotes (example_config [''A'', ''B''] 3600)
          (serving [(''A'', set_response [raw_record ''1'' ''a'']),
                    (''B'', set_response [raw_record ''2'' ''b''])]) 0 initial)))
       = Inr [plain_emote ''2'' ''b'', plain_emote ''3'' ''c'', plain_emote ''4'' ''d'']
   \<and> allEmotes (snd (fetchEmotes (example_config [''A'', ''B''] 3600)
        (serving [(''A'', set_response [raw_record ''2'' ''b'', raw_record ''3'' ''c'']),
                  (''B'', set_response [raw_record ''4'' ''d''])]) 1000
        (snd (fetchEmotes (example_config [''A'', ''B''] 3600)
          (serving [(''A'', set_response [raw_record ''1'' ''a'']),
                    (''B'', set_response [raw_record ''2'' ''b''])]) 0 initial))))
       = [plain_emote ''2'' ''b'', plain_emote ''3'' ''c'', plain_emote ''4'' ''d'']
   \<and> allEmotes (snd (refreshEmotes (example_config [''A'', ''B''] 3600)
        (serving [(''A'', set_response [raw_record ''2'' ''b'', raw_record ''3'' ''c'']),
                  (''B'', set_response [raw_record ''4'' ''d''])]) 1000
        (snd (fetchEmotes (example_config [''A'', ''B''] 3600)
          (serving [(''A'', set_response [raw_record ''1'' ''a'']),
                    (''B'', set_response [raw_record ''2'' ''b''])]) 0 initial))))
       = [plain_emote ''2'' ''b'', plain_emote ''3'' ''c'', plain_emote ''4'' ''d'']"
proof -
  let ?cfg = "example_config [''A'', ''B''] 3600"
  let ?old = "serving [(''A'', set_response [raw_record ''1'' ''a'']),
                       (''B'', set_response [raw_record ''2'' ''b''])]"
  let ?new = "serving [(''A'', set_response [raw_record ''2'' ''b'', raw_record ''3'' ''c'']),
                       (''B'', set_response [raw_record ''4'' ''d''])]"
  let ?st = "snd (fetchEmotes ?cfg ?old 0 initial)"
  have ne: "emoteSetIds ?cfg \<noteq> []" by (simp add: example_config_def)
  have oa: "fetchEmoteSet ?old ''A'' = Inr [plain_emote ''1'' ''a'']"
    using fetchEmoteSet_serving_raw_records
      [where sid = "''A''" and ps = "[(''1'', ''a'')]"
         and table = "[(''A'', set_response [raw_record ''1'' ''a'']),
                       (''B'', set_response [raw_record ''2'' ''b''])]"]
    by simp
  have ob: "fetchEmoteSet ?old ''B'' = Inr [plain_emote ''2'' ''b'']"
    using fetchEmoteSet_serving_raw_records
      [where sid = "''B''" and ps = "[(''2'', ''b'')]"
         and table = "[(''A'', set_response [raw_record ''1'' ''a'']),
                       (''B'', set_response [raw_record ''2'' ''b''])]"]
    by simp
  have na: "fetchEmoteSet ?new ''A'' = Inr [plain_emote ''2'' ''b'', plain_emote ''3'' ''c'']"
    using fetchEmoteSet_serving_raw_records
      [where sid = "''A''" and ps = "[(''2'', ''b''), (''3'', ''c'')]"
         and table = "[(''A'', set_response [raw_record ''2'' ''b'', raw_record ''3'' ''c'']),
                       (''B'', set_response [raw_record ''4'' ''d''])]"]
    by simp
  have nb: "fetchEmoteSet ?new ''B'' = Inr [plain_emote ''4'' ''d'']"
    using fetchEmoteSet_serving_raw_records
      [where sid = "''B''" and ps = "[(''4'', ''d'')]"
         and table = "[(''A'', set_response [raw_record ''2'' ''b'', raw_record ''3'' ''c'']),
                       (''B'', set_response [raw_record ''4'' ''d''])]"]
    by simp
  have mo: "map (fetchEmoteSet ?old) (emoteSetIds ?cfg)
              = map Inr [[plain_emote ''1'' ''a''], [plain_emote ''2'' ''b'']]"
    by (simp add: example_config_def oa ob)
  have mn: "map (fetchEmoteSet ?new) (emoteSetIds ?cfg)
              = map Inr [[plain_emote ''2'' ''b'', plain_emote ''3'' ''c''], [plain_emote ''4'' ''d'']]"
    by (simp add: example_config_def na nb)
  have r: "reachable ?cfg ?st" by (intro reachable.load reachable.start)
  have old: "allEmotes ?st = [plain_emote ''1'' ''a'', plain_emote ''2'' ''b'']"
    using fetchEmotes_state_of(2) [OF ne mo, of 0 initial] by simp
  from fetchEmotes_replaces_allEmotes [OF r, of ?new 1000] obtain ess
    where e: "map (fetchEmoteSet ?new) (emoteSetIds ?cfg) = map Inr ess"
      and 1: "fst (fetchEmotes ?cfg ?new 1000 ?st) = Inr (concat ess)"
      and 2: "allEmotes (snd (fetchEmotes ?cfg ?new 1000 ?st)) = concat ess"
      and 3: "allEmotes (snd (refreshEmotes ?cfg ?new 1000 ?st)) = concat ess"
    by blast
  from e mn have "ess = [[plain_emote ''2'' ''b'', plain_emote ''3'' ''c''], [plain_emote ''4'' ''d'']]"
    by (simp only: map_Inr_eq)
  with r old 1 2 3 show ?thesis by simp
qed

text \<open>
  C5. \<open>fetchEmoteSet\<close> always resolves: with an empty list when the request fails
  (network failure, timeout) and when the response does not have the shape of an emote
  set. So when set \<open>A\<close> yields \<open>esA\<close> and the request for set \<open>B\<close> fails,
  \<open>fetchEmotes\<close> over \<open>[A, B]\<close> resolves with exactly \<open>esA\<close>.
\<close>

theorem fetchEmoteSet_degrades_to_empty:
  "(axios_get (''https://7tv.io/v3/emote-sets/'' @ sid) = Inl err
      \<longrightarrow> fetchEmoteSet axios_get sid = Inr [])
   \<and> (axios_get (''https://7tv.io/v3/emote-sets/'' @ sid) = Inr d \<and> SevenTVEmoteSetSchema d = Inl z
      \<longrightarrow> fetchEmoteSet axios_get sid = Inr [])
   \<and> (\<exists>es. fetchEmoteSet axios_get sid = Inr es)
   \<and> (emoteSetIds cfg = [A, B] \<and> fetchEmoteSet axios_get A = Inr esA
       \<and> axios_get (''https://7tv.io/v3/emote-sets/'' @ B) = Inl err
      \<longrightarrow> fst (fetchEmotes cfg axios_get now st) = Inr esA)"
proof (intro conjI impI)
  assume "axios_get (''https://7tv.io/v3/emote-sets/'' @ sid) = Inl err"
  then show "fetchEmoteSet axios_get sid = Inr []" by (rule fetchEmoteSet_network_failure)
next
  assume "axios_get (''https://7tv.io/v3/emote-sets/'' @ sid) = Inr d \<and> SevenTVEmoteSetSchema d = Inl z"
  then show "fetchEmoteSet axios_get sid = Inr []" by (simp add: fetchEmoteSet_shape_mismatch)
next
  show "\<exists>es. fetchEmoteSet axios_get sid = Inr es" by (rule fetchEmoteSet_total)
next
  assume h: "emoteSetIds cfg = [A, B] \<and> fetchEmoteSet axios_get A = Inr esA
       \<and> axios_get (''https://7tv.io/v3/emote-sets/'' @ B) = Inl err"
  then have "fetchEmoteSet axios_get B = Inr []" by (simp add: fetchEmoteSet_network_failure)
  with h have m: "map (fetchEmoteSet axios_get) (emoteSetIds cfg) = map Inr [esA, []]" by simp
  from h have "emoteSetIds cfg \<noteq> []" by simp
  from fetchEmotes_loaded [OF this m, of now st]
  show "fst (fetchEmotes cfg axios_get now st) = Inr esA" by simp
qed

theorem fetchEmoteSet_degrades_to_empty_witness:
  "serving [(''A'', set_response [raw_record ''1'' ''a'', raw_record ''2'' ''b'', raw_record ''3'' ''c'']),
            (''C'', JString ''not a set'')] (''https://7tv.io/v3/emote-sets/'' @ ''B'') = Inl AxiosError
   \<and> fetchEmoteSet
        (serving [(''A'', set_response [raw_record ''1'' ''a'', raw_record ''2'' ''b'', raw_record ''3'' ''c'']),
                  (''C'', JString ''not a set'')]) ''B'' = Inr []
   \<and> serving [(''A'', set_response [raw_record ''1'' ''a'', raw_record ''2'' ''b'', raw_record ''3'' ''c'']),
              (''C'', JString ''not a set'')] (''https://7tv.io/v3/emote-sets/'' @ ''C'')
        = Inr (JString ''not a set'')
   \<and> SevenTVEmoteSetSchema (JString ''not a set'') = Inl ZodError
   \<and> fetchEmoteSet
        (serving [(''A'', set_response [raw_record ''1'' ''a'', raw_record ''2'' ''b'', raw_record ''3'' ''c'']),
                  (''C'', JString ''not a set'')]) ''C'' = Inr []
   \<and> emoteSetIds (example_config [''A'', ''B''] 3600) = [''A'', ''B'']
   \<and> fetchEmoteSet
        (serving [(''A'', set_response [raw_record ''1'' ''a'', raw_record ''2'' ''b'', raw_record ''3'' ''c'']),
                  (''C'', JString ''not a set'')]) ''A''
        = Inr [plain_emote ''1'' ''a'', plain_emote ''2'' ''b'', plain_emote ''3'' ''c'']
   \<and> fst (fetchEmotes (example_config [''A'', ''B''] 3600)
        (serving [(''A'', set_response [raw_record ''1'' ''a'', raw_record ''2'' ''b'', raw_record ''3'' ''c'']),
                  (''C'', JString ''not a set'')]) 0 initial)
        = Inr [plain_emote ''1'' ''a'', plain_emote ''2'' ''b'', plain_emote ''3'' ''c'']"
proof -
  let ?up = "serving [(''A'', set_response [raw_record ''1'' ''a'', raw_record ''2'' ''b'', raw_record ''3'' ''c'']),
                      (''C'', JString ''not a set'')]"
  let ?cfg = "example_config [''A'', ''B''] 3600"
  let ?esA = "[plain_emote ''1'' ''a'', plain_emote ''2'' ''b'', plain_emote ''3'' ''c'']"
  have b: "?up (''https://7tv.io/v3/emote-sets/'' @ ''B'') = Inl AxiosError"
    by (rule serving_unknown) simp
  have c: "?up (''https://7tv.io/v3/emote-sets/'' @ ''C'') = Inr (JString ''not a set'')"
    by (simp add: serving_def)
  have z: "SevenTVEmoteSetSchema (JString ''not a set'') = Inl ZodError"
    by (simp add: SevenTVEmoteSetSchema_def z_object_def)
  have ids: "emoteSetIds ?cfg = [''A'', ''B'']" by (simp add: example_config_def)
  have a: "fetchEmoteSet ?up ''A'' = Inr ?esA"
    using fetchEmoteSet_serving_raw_records
      [where sid = "''A''" and ps = "[(''1'', ''a''), (''2'', ''b''), (''3'', ''c'')]"
         and table = "[(''A'', set_response [raw_record ''1'' ''a'', raw_record ''2'' ''b'', raw_record ''3'' ''c'']),
                      (''C'', JString ''not a set'')]"]
    by simp
  note thm1 = fetchEmoteSet_degrades_to_empty
      [where axios_get = ?up and sid = "''B''" and err = AxiosError and cfg = ?cfg
         and A = "''A''" and B = "''B''" and esA = ?esA and now = 0 and st = initial]
  note thm2 = fetchEmoteSet_degrades_to_empty
      [where axios_get = ?up and sid = "''C''" and d = "JString ''not a set''" and z = ZodError]
  from thm1 b have 1: "fetchEmoteSet ?up ''B'' = Inr []" by blast
  from thm2 c z have 2: "fetchEmoteSet ?up ''C'' = Inr []" by blast
  from thm1 ids a b have 3: "fst (fetchEmotes ?cfg ?up 0 initial) = Inr ?esA" by blast
  from b c z ids a 1 2 3 show ?thesis by blast
qed

text \<open>
  C6, at the input where the code departs from it. Sets \<open>A\<close> and \<open>B\<close>, configured in
  this order, contribute the emotes with ids 1 and 2, both named \<open>X\<close>; the time-to-live
  is the default 3600 seconds and the load happens at time 0. One second later the lookup
  of \<open>x\<close> returns the emote of the later set \<open>B\<close>, from the cache, which the load loop
  fills in list order. Just over an hour later the cache entry has expired and the same
  lookup returns the emote of the earlier set \<open>A\<close>, from the scan, which stops at the
  first match.
\<close>

theorem findEmote_name_collision_flips_after_expiry:
  "fetchEmoteSet (serving [(''A'', set_response [raw_record ''1'' ''X'']),
                           (''B'', set_response [raw_record ''2'' ''X''])]) ''A''
     = Inr [plain_emote ''1'' ''X'']
   \<and> fetchEmoteSet (serving [(''A'', set_response [raw_record ''1'' ''X'']),
                             (''B'', set_response [raw_record ''2'' ''X''])]) ''B''
     = Inr [plain_emote ''2'' ''X'']
   \<and> fst (findEmote (example_config [''A'', ''B''] 3600) 1000 ''x''
        (snd (fetchEmotes (example_config [''A'', ''B''] 3600)
          (serving [(''A'', set_response [raw_record ''1'' ''X'']),
                    (''B'', set_response [raw_record ''2'' ''X''])]) 0 initial)))
     = Some (plain_emote ''2'' ''X'')
   \<and> fst (findEmote (example_config [''A'', ''B''] 3600) 3600001 ''x''
        (snd (fetchEmotes (example_config [''A'', ''B''] 3600)
          (serving [(''A'', set_response [raw_record ''1'' ''X'']),
                    (''B'', set_response [raw_record ''2'' ''X''])]) 0 initial)))
     = Some (plain_emote ''1'' ''X'')
   \<and> plain_emote ''1'' ''X'' \<noteq> plain_emote ''2'' ''X''"
proof -
  let ?cfg = "example_config [''A'', ''B''] 3600"
  let ?up = "serving [(''A'', set_response [raw_record ''1'' ''X'']),
                      (''B'', set_response [raw_record ''2'' ''X''])]"
  let ?a = "plain_emote ''1'' ''X''"
  let ?b = "plain_emote ''2'' ''X''"
  let ?st = "snd (fetchEmotes ?cfg ?up 0 initial)"
  have ne: "emoteSetIds ?cfg \<noteq> []" by (simp add: example_config_def)
  have A: "fetchEmoteSet ?up ''A'' = Inr [?a]"
    using fetchEmoteSet_serving_raw_records
      [where sid = "''A''" and ps = "[(''1'', ''X'')]"
         and table = "[(''A'', set_response [raw_record ''1'' ''X'']),
                       (''B'', set_response [raw_record ''2'' ''X''])]"]
    by simp
  have B: "fetchEmoteSet ?up ''B'' = Inr [?b]"
    using fetchEmoteSet_serving_raw_records
      [where sid = "''B''" and ps = "[(''2'', ''X'')]"
         and table = "[(''A'', set_response [raw_record ''1'' ''X'']),
                       (''B'', set_response [raw_record ''2'' ''X''])]"]
    by simp
  have m: "map (fetchEmoteSet ?up) (emoteSetIds ?cfg) = map Inr [[?a], [?b]]"
    by (simp add: example_config_def A B)
  have s: "toLowerCase ''X'' = ''x''" "toLowerCase ''x'' = ''x''" "trim ''x'' = ''x''"
    by code_simp+
  have all: "allEmotes ?st = [?a, ?b]"
    using fetchEmotes_state_of(2) [OF ne m, of 0 initial] by simp
  have c: "emoteCache ?st ''x'' = Some \<lparr>t = 3600000, v = ?b\<rparr>"
    using fetchEmotes_state_of(3) [OF ne m, of 0 initial "''x''"]
    by (simp add: plain_emote_def s example_config_def)
  have 1: "fst (findEmote ?cfg 1000 ''x'' ?st) = Some ?b"
    using findEmote_result [of "''x''" ?cfg 1000 ?st] c
    by (simp add: s expired_def)
  have 2: "fst (findEmote ?cfg 3600001 ''x'' ?st) = Some ?a"
    using findEmote_result [of "''x''" ?cfg 3600001 ?st] c
    by (simp add: s expired_def all) (simp add: plain_emote_def s)
  have 3: "?a \<noteq> ?b" by (simp add: plain_emote_def)
  from A B 1 2 3 show ?thesis by simp
qed




text \<open>
  C8. \<open>getEmoteUrl\<close> builds \<open>{cdnBaseUrl}/{emoteId}/{size}.{format}\<close>, with \<open>3x\<close> in
  place of an omitted size and \<open>webp\<close> in place of an omitted format, each on its own;
  \<open>fetchEmoteImage\<close> requests that URL with the same defaults and, when the request
  succeeds, returns the bytes with content type \<open>image/webp\<close>, \<open>image/avif\<close> or
  \<open>image/gif\<close> for the formats \<open>webp\<close>, \<open>avif\<close> and \<open>gif\<close>; when the request
  fails, the failure is passed on.
\<close>

theorem getEmoteUrl_fetchEmoteImage:
  "getEmoteUrl cfg emoteId (Some sz) (Some fmt)
     = cdnBaseUrl cfg @ ''/'' @ emoteId @ ''/'' @ sz @ ''.'' @ fmt
   \<and> getEmoteUrl cfg emoteId (Some sz) None
     = cdnBaseUrl cfg @ ''/'' @ emoteId @ ''/'' @ sz @ ''.webp''
   \<and> getEmoteUrl cfg emoteId None (Some fmt)
     = cdnBaseUrl cfg @ ''/'' @ emoteId @ ''/3x.'' @ fmt
   \<and> getEmoteUrl cfg emoteId None None = cdnBaseUrl cfg @ ''/'' @ emoteId @ ''/3x.webp''
   \<and> (fmt \<in> {''webp'', ''avif'', ''gif''} \<and>
        axios_get (cdnBaseUrl cfg @ ''/'' @ emoteId @ ''/'' @ sz @ ''.'' @ fmt) = Inr bytes
        \<longrightarrow> fetchEmoteImage cfg axios_get emoteId (Some sz) (Some fmt)
              = Inr \<lparr>buffer = bytes, contentType = ''image/'' @ fmt\<rparr>)
   \<and> (fmt \<in> {''webp'', ''avif'', ''gif''} \<and>
        axios_get (cdnBaseUrl cfg @ ''/'' @ emoteId @ ''/3x.'' @ fmt) = Inr bytes
        \<longrightarrow> fetchEmoteImage cfg axios_get emoteId None (Some fmt)
              = Inr \<lparr>buffer = bytes, contentType = ''image/'' @ fmt\<rparr>)
   \<and> (axios_get (cdnBaseUrl cfg @ ''/'' @ emoteId @ ''/'' @ sz @ ''.webp'') = Inr bytes
        \<longrightarrow> fetchEmoteImage cfg axios_get emoteId (Some sz) None
              = Inr \<lparr>buffer = bytes, contentType = ''image/webp''\<rparr>)
   \<and> (axios_get (cdnBaseUrl cfg @ ''/'' @ emoteId @ ''/3x.webp'') = Inr bytes
        \<longrightarrow> fetchEmoteImage cfg axios_get emoteId None None
              = Inr \<lparr>buffer = bytes, contentType = ''image/webp''\<rparr>)
   \<and> (axios_get (getEmoteUrl cfg emoteId size_arg format_arg) = Inl err
        \<longrightarrow> fetchEmoteImage cfg axios_get emoteId size_arg format_arg = Inl err)"
proof -
  have u: "getEmoteUrl cfg emoteId (Some sz) (Some fmt)
             = cdnBaseUrl cfg @ ''/'' @ emoteId @ ''/'' @ sz @ ''.'' @ fmt"
    "getEmoteUrl cfg emoteId (Some sz) None
             = cdnBaseUrl cfg @ ''/'' @ emoteId @ ''/'' @ sz @ ''.webp''"
    "getEmoteUrl cfg emoteId None (Some fmt)
             = cdnBaseUrl cfg @ ''/'' @ emoteId @ ''/3x.'' @ fmt"
    "getEmoteUrl cfg emoteId None None = cdnBaseUrl cfg @ ''/'' @ emoteId @ ''/3x.webp''"
    by (simp_all add: getEmoteUrl_def)
  have i1: "fmt \<in> {''webp'', ''avif'', ''gif''} \<and>
        axios_get (cdnBaseUrl cfg @ ''/'' @ emoteId @ ''/'' @ sz @ ''.'' @ fmt) = Inr bytes
        \<longrightarrow> fetchEmoteImage cfg axios_get emoteId (Some sz) (Some fmt)
              = Inr \<lparr>buffer = bytes, contentType = ''image/'' @ fmt\<rparr>"
    by (auto simp: getEmoteUrl_def fetchEmoteImage_def)
  have i2: "fmt \<in> {''webp'', ''avif'', ''gif''} \<and>
        axios_get (cdnBaseUrl cfg @ ''/'' @ emoteId @ ''/3x.'' @ fmt) = Inr bytes
        \<longrightarrow> fetchEmoteImage cfg axios_get emoteId None (Some fmt)
              = Inr \<lparr>buffer = bytes, contentType = ''image/'' @ fmt\<rparr>"
    by (auto simp: getEmoteUrl_def fetchEmoteImage_def)
  have i3: "axios_get (cdnBaseUrl cfg @ ''/'' @ emoteId @ ''/'' @ sz @ ''.webp'') = Inr bytes
        \<longrightarrow> fetchEmoteImage cfg axios_get emoteId (Some sz) None
              = Inr \<lparr>buffer = bytes, contentType = ''image/webp''\<rparr>"
    by (simp add: getEmoteUrl_def fetchEmoteImage_def)
  have i4: "axios_get (cdnBaseUrl cfg @ ''/'' @ emoteId @ ''/3x.webp'') = Inr bytes
        \<longrightarrow> fetchEmoteImage cfg axios_get emoteId None None
              = Inr \<lparr>buffer = bytes, contentType = ''image/webp''\<rparr>"
    by (simp add: getEmoteUrl_def fetchEmoteImage_def)
  have i5: "axios_get (getEmoteUrl cfg emoteId size_arg format_arg) = Inl err
        \<longrightarrow> fetchEmoteImage cfg axios_get emoteId size_arg format_arg = Inl err"
    by (cases size_arg; cases format_arg) (simp_all add: getEmoteUrl_def fetchEmoteImage_def)
  from u i1 i2 i3 i4 i5 show ?thesis by blast
qed

theorem getEmoteUrl_fetchEmoteImage_witness:
  "getEmoteUrl (example_config [] 3600) ''abc123'' (Some ''2x'') (Some ''gif'')
     = ''https://cdn.7tv.app/emote/abc123/2x.gif''
   \<and> getEmoteUrl (example_config [] 3600) ''abc123'' (Some ''2x'') None
     = ''https://cdn.7tv.app/emote/abc123/2x.webp''
   \<and> getEmoteUrl (example_config [] 3600) ''abc123'' None (Some ''gif'')
     = ''https://cdn.7tv.app/emote/abc123/3x.gif''
   \<and> getEmoteUrl (example_config [] 3600) ''abc123'' None None
     = ''https://cdn.7tv.app/emote/abc123/3x.webp''
   \<and> ''gif'' \<in> {''webp'', ''avif'', ''gif''}
   \<and> serving_images [(''https://cdn.7tv.app/emote/abc123/2x.gif'', [71, 73, 70]),
                       (''https://cdn.7tv.app/emote/abc123/3x.gif'', [71, 73]),
                       (''https://cdn.7tv.app/emote/abc123/2x.webp'', [82, 73, 70, 70]),
                       (''https://cdn.7tv.app/emote/abc123/3x.webp'', [82, 73])]
        ''https://cdn.7tv.app/emote/abc123/2x.gif'' = Inr [71, 73, 70]
   \<and> fetchEmoteImage (example_config [] 3600)
        (serving_images [(''https://cdn.7tv.app/emote/abc123/2x.gif'', [71, 73, 70]),
                         (''https://cdn.7tv.app/emote/abc123/3x.gif'', [71, 73]),
                         (''https://cdn.7tv.app/emote/abc123/2x.webp'', [82, 73, 70, 70]),
                         (''https://cdn.7tv.app/emote/abc123/3x.webp'', [82, 73])])
        ''abc123'' (Some ''2x'') (Some ''gif'')
       = Inr \<lparr>buffer = [71, 73, 70], contentType = ''image/gif''\<rparr>
   \<and> fetchEmoteImage (example_config [] 3600)
        (serving_images [(''https://cdn.7tv.app/emote/abc123/2x.gif'', [71, 73, 70]),
                         (''https://cdn.7tv.app/emote/abc123/3x.gif'', [71, 73]),
                         (''https://cdn.7tv.app/emote/abc123/2x.webp'', [82, 73, 70, 70]),
                         (''https://cdn.7tv.app/emote/abc123/3x.webp'', [82, 73])])
        ''abc123'' None (Some ''gif'')
       = Inr \<lparr>buffer = [71, 73], contentType = ''image/gif''\<rparr>
   \<and> fetchEmoteImage (example_config [] 3600)
        (serving_images [(''https://cdn.7tv.app/emote/abc123/2x.gif'', [71, 73, 70]),
                         (''https://cdn.7tv.app/emote/abc123/3x.gif'', [71, 73]),
                         (''https://cdn.7tv.app/emote/abc123/2x.webp'', [82, 73, 70, 70]),
                         (''https://cdn.7tv.app/emote/abc123/3x.webp'', [82, 73])])
        ''abc123'' (Some ''2x'') None
       = Inr \<lparr>buffer = [82, 73, 70, 70], contentType = ''image/webp''\<rparr>
   \<and> fetchEmoteImage (example_config [] 3600)
        (serving_images [(''https://cdn.7tv.app/emote/abc123/2x.gif'', [71, 73, 70]),
                         (''https://cdn.7tv.app/emote/abc123/3x.gif'', [71, 73]),
                         (''https://cdn.7tv.app/emote/abc123/2x.webp'', [82, 73, 70, 70]),
                         (''https://cdn.7tv.app/emote/abc123/3x.webp'', [82, 73])])
        ''abc123'' None None
       = Inr \<lparr>buffer = [82, 73], contentType = ''image/webp''\<rparr>
   \<and> fetchEmoteImage (example_config [] 3600)
        (serving_images [(''https://cdn.7tv.app/emote/abc123/2x.gif'', [71, 73, 70]),
                         (''https://cdn.7tv.app/emote/abc123/3x.gif'', [71, 73]),
                         (''https://cdn.7tv.app/emote/abc123/2x.webp'', [82, 73, 70, 70]),
                         (''https://cdn.7tv.app/emote/abc123/3x.webp'', [82, 73])])
        ''missing'' (Some ''4x'') (Some ''avif'')
       = Inl AxiosError"
proof -
  let ?cfg = "example_config [] 3600"
  let ?cdn = "serving_images [(''https://cdn.7tv.app/emote/abc123/2x.gif'', [71, 73, 70]),
                              (''https://cdn.7tv.app/emote/abc123/3x.gif'', [71, 73]),
                              (''https://cdn.7tv.app/emote/abc123/2x.webp'', [82, 73, 70, 70]),
                              (''https://cdn.7tv.app/emote/abc123/3x.webp'', [82, 73])]"
  have b: "cdnBaseUrl ?cfg = ''https://cdn.7tv.app/emote''" by (simp add: example_config_def)
  have g: "''gif'' \<in> {''webp'', ''avif'', ''gif''}" by simp
  have s1: "?cdn (cdnBaseUrl ?cfg @ ''/'' @ ''abc123'' @ ''/'' @ ''2x'' @ ''.'' @ ''gif'') = Inr [71, 73, 70]"
    and s2: "?cdn (cdnBaseUrl ?cfg @ ''/'' @ ''abc123'' @ ''/3x.'' @ ''gif'') = Inr [71, 73]"
    and s3: "?cdn (cdnBaseUrl ?cfg @ ''/'' @ ''abc123'' @ ''/'' @ ''2x'' @ ''.webp'') = Inr [82, 73, 70, 70]"
    and s4: "?cdn (cdnBaseUrl ?cfg @ ''/'' @ ''abc123'' @ ''/3x.webp'') = Inr [82, 73]"
    by (simp_all add: b serving_images_def)
  note t = getEmoteUrl_fetchEmoteImage
    [where cfg = ?cfg and emoteId = "''abc123''" and sz = "''2x''" and fmt = "''gif''"
       and axios_get = ?cdn]
  have u: "getEmoteUrl ?cfg ''abc123'' (Some ''2x'') (Some ''gif'') = ''https://cdn.7tv.app/emote/abc123/2x.gif''"
    "getEmoteUrl ?cfg ''abc123'' (Some ''2x'') None = ''https://cdn.7tv.app/emote/abc123/2x.webp''"
    "getEmoteUrl ?cfg ''abc123'' None (Some ''gif'') = ''https://cdn.7tv.app/emote/abc123/3x.gif''"
    "getEmoteUrl ?cfg ''abc123'' None None = ''https://cdn.7tv.app/emote/abc123/3x.webp''"
    using t [of "[]"] by (simp_all add: b)
  from t [of "[71, 73, 70]"] g s1
  have 1: "fetchEmoteImage ?cfg ?cdn ''abc123'' (Some ''2x'') (Some ''gif'')
             = Inr \<lparr>buffer = [71, 73, 70], contentType = ''image/gif''\<rparr>" by simp
  from t [of "[71, 73]"] g s2
  have 2: "fetchEmoteImage ?cfg ?cdn ''abc123'' None (Some ''gif'')
             = Inr \<lparr>buffer = [71, 73], contentType = ''image/gif''\<rparr>" by simp
  from t [of "[82, 73, 70, 70]"] s3
  have 3: "fetchEmoteImage ?cfg ?cdn ''abc123'' (Some ''2x'') None
             = Inr \<lparr>buffer = [82, 73, 70, 70], contentType = ''image/webp''\<rparr>" by simp
  from t [of "[82, 73]"] s4
  have 4: "fetchEmoteImage ?cfg ?cdn ''abc123'' None None
             = Inr \<lparr>buffer = [82, 73], contentType = ''image/webp''\<rparr>" by simp
  have e: "?cdn (getEmoteUrl ?cfg ''missing'' (Some ''4x'') (Some ''avif'')) = Inl AxiosError"
    by (simp add: getEmoteUrl_def b serving_images_def)
  from getEmoteUrl_fetchEmoteImage
    [where cfg = ?cfg and emoteId = "''missing''" and axios_get = ?cdn
       and size_arg = "Some ''4x''" and format_arg = "Some ''avif''" and err = AxiosError] e
  have 5: "fetchEmoteImage ?cfg ?cdn ''missing'' (Some ''4x'') (Some ''avif'') = Inl AxiosError"
    by blast
  have s1': "?cdn ''https://cdn.7tv.app/emote/abc123/2x.gif'' = Inr [71, 73, 70]"
    by (simp add: serving_images_def)
  from u g s1' 1 2 3 4 5 show ?thesis by simp
qed

text \<open>
  C9. \<open>findEmote\<close> with the empty string returns not-found and leaves the whole state
  as it was: \<open>allEmotes\<close>, the cache, and the record of accesses, so the cache was
  neither read nor written and \<open>allEmotes\<close> was not scanned.
\<close>

theorem findEmote_empty_name: "findEmote cfg now [] st = (None, st)"
  by (simp add: findEmote_def)




end
